theory Spec2Isabelle
  imports Complex_Main "HOL-Library.Word"
begin

section \<open>Dune vectors and matrices\<close>

text \<open>
  \<open>Dune::FieldVector<Scalar, dimWorld>\<close> and \<open>Dune::FieldMatrix<Scalar, dimWorld, dimWorld>\<close>
  are lists of components and lists of rows. The scalar type is a type variable that
  carries only the operations the source uses: no law of arithmetic is built into the
  definitions, so they read the same for exact and for rounded scalars. Each operation
  visits the components in the order of the Dune loop it stands for. A theorem that
  needs a law of arithmetic names the algebraic class it is proved for; rounding is not
  modelled, and division by zero, which the source answers with a non-finite value, is
  left to the scalar type.
\<close>

type_synonym 'a DimVector = "'a list"
type_synonym 'a DimMatrix = "'a list list"

definition dot :: "'a::{zero,plus,times} DimVector \<Rightarrow> 'a DimVector \<Rightarrow> 'a" where
  \<comment> \<open>\<open>x * y\<close> on two vectors: \<open>result = 0; result += x[i] * y[i]\<close>\<close>
  "dot x y = foldl (\<lambda>result (a, b). result + a * b) 0 (zip x y)"

definition two_norm2 :: "'a::{zero,plus,times} DimVector \<Rightarrow> 'a" where
  \<comment> \<open>\<open>x.two_norm2()\<close>: \<open>result = 0; result += x[i] * x[i]\<close>\<close>
  "two_norm2 x = foldl (\<lambda>result a. result + a * a) 0 x"

definition two_norm :: "('a \<Rightarrow> 'a) \<Rightarrow> 'a::{zero,plus,times} DimVector \<Rightarrow> 'a" where
  \<comment> \<open>\<open>x.two_norm()\<close>: the square root, a library function, of \<open>two_norm2\<close>\<close>
  "two_norm sqrt_fn x = sqrt_fn (two_norm2 x)"

definition vsub :: "'a::minus DimVector \<Rightarrow> 'a DimVector \<Rightarrow> 'a DimVector" where
  \<comment> \<open>\<open>x -= y\<close>\<close>
  "vsub x y = map2 (\<lambda>a b. a - b) x y"

definition vadd :: "'a::plus DimVector \<Rightarrow> 'a DimVector \<Rightarrow> 'a DimVector" where
  \<comment> \<open>\<open>x += y\<close>\<close>
  "vadd x y = map2 (\<lambda>a b. a + b) x y"

definition vscale :: "'a::times DimVector \<Rightarrow> 'a \<Rightarrow> 'a DimVector" where
  \<comment> \<open>\<open>x *= k\<close>: every component is multiplied by \<open>k\<close> from the right\<close>
  "vscale x k = map (\<lambda>a. a * k) x"

definition mv :: "'a::{zero,plus,times} DimMatrix \<Rightarrow> 'a DimVector \<Rightarrow> 'a DimVector" where
  \<comment> \<open>\<open>A.mv(x, y)\<close>: \<open>y[i] = 0; y[i] += A[i][j] * x[j]\<close>\<close>
  "mv A x = map (\<lambda>row. dot row x) A"

definition projection :: "'a::{zero,plus,times} DimVector \<Rightarrow> 'a DimVector \<Rightarrow> 'a" where
  \<comment> \<open>the loop \<open>tmp = 0; for (i = 0; i < faceNormal.size(); ++i) tmp += grad[i]*faceNormal[i]\<close>\<close>
  "projection grad faceNormal =
     foldl (\<lambda>tmp i. tmp + grad ! i * faceNormal ! i) 0 [0..<length faceNormal]"

section \<open>The element context and the face record\<close>

text \<open>
  Degree-of-freedom indices are stored in members of type \<open>short\<close>: 16-bit words, read
  as signed where the source compares them with zero. The index accessors of the stencil
  and the look-ups by index belong to classes outside these sources; an index is taken
  as the 16 bits that the assignment to the \<open>short\<close> member keeps.
\<close>

type_synonym dofIdx = "16 word"

record 'a SubControlVolumeFace =
  normal :: "'a DimVector"
  interiorIndex :: dofIdx
  exteriorIndex :: dofIdx
  integrationPos :: "'a DimVector"

text \<open>
  Everything the flux module asks of its collaborators, one field per query. The
  collaborators themselves (stencil, gradient calculator, problem, intensive quantities,
  material law, fluid system) are outside the module, so their answers are parameters.
  \<open>numPhases\<close> and \<open>dimWorld\<close> are the compile-time constants of the type tag,
  \<open>std_isfinite\<close> and \<open>std_sqrt\<close> the two library functions on scalars. The material-law
  parameters of a control volume are folded into \<open>MaterialLaw_relativePermeabilities\<close>.
\<close>

record ('a, 'fs, 'pc) ElementContext =
  numPhases :: nat
  dimWorld :: nat
  EnableGravity :: bool
  model_phaseIsConsidered :: "nat \<Rightarrow> bool"
  stencil_interiorFace :: "nat \<Rightarrow> nat \<Rightarrow> 'a SubControlVolumeFace"
  stencil_boundaryFace :: "nat \<Rightarrow> nat \<Rightarrow> 'a SubControlVolumeFace"
  gradCalc_calculateGradient :: "nat \<Rightarrow> nat \<Rightarrow> 'a DimVector"
  gradCalc_calculateBoundaryGradient :: "'fs \<Rightarrow> nat \<Rightarrow> nat \<Rightarrow> 'a DimVector"
  problem_gravity :: "dofIdx \<Rightarrow> nat \<Rightarrow> 'a DimVector"
  problem_intersectionIntrinsicPermeability :: "nat \<Rightarrow> nat \<Rightarrow> 'a DimMatrix"
  pos :: "dofIdx \<Rightarrow> nat \<Rightarrow> 'a DimVector"
  intQuants_density :: "dofIdx \<Rightarrow> nat \<Rightarrow> nat \<Rightarrow> 'a"
  intQuants_mobility :: "dofIdx \<Rightarrow> nat \<Rightarrow> nat \<Rightarrow> 'a"
  intQuants_intrinsicPermeability :: "dofIdx \<Rightarrow> nat \<Rightarrow> 'a DimMatrix"
  MaterialLaw_relativePermeabilities :: "dofIdx \<Rightarrow> nat \<Rightarrow> 'fs \<Rightarrow> nat \<Rightarrow> 'a"
  FluidSystem_viscosity :: "'fs \<Rightarrow> 'pc \<Rightarrow> nat \<Rightarrow> 'a"
  std_isfinite :: "'a \<Rightarrow> bool"
  std_sqrt :: "'a \<Rightarrow> 'a"

text \<open>
  The protected state of \<open>DarcyExtensiveQuantities\<close>. The source's member names end in an
  underscore, which a constant's name cannot; the underscore is dropped. The per-phase
  arrays of length \<open>numPhases\<close> are functions of the phase index. The record has no field
  that tells whether the gradients have been computed.
\<close>

record 'a DarcyExtensiveQuantities =
  K :: "'a DimMatrix"
  interiorDofIdx :: dofIdx
  exteriorDofIdx :: dofIdx
  upstreamDofIdx :: "nat \<Rightarrow> dofIdx"
  downstreamDofIdx :: "nat \<Rightarrow> dofIdx"
  mobility :: "nat \<Rightarrow> 'a"
  filterVelocity :: "nat \<Rightarrow> 'a DimVector"
  volumeFlux :: "nat \<Rightarrow> 'a"
  potentialGrad :: "nat \<Rightarrow> 'a DimVector"

text \<open>
  A stage that throws returns the exception in place of the record: what the stage had
  written into the record before the throw is not observed.
\<close>

datatype error = NumericalProblem nat
  \<comment> \<open>\<open>Opm::NumericalProblem\<close>; the message names the phase, here its index\<close>

fun forPhases :: "(nat \<Rightarrow> 's \<Rightarrow> error + 's) \<Rightarrow> nat list \<Rightarrow> 's \<Rightarrow> error + 's" where
  "forPhases body [] s = Inr s"
| "forPhases body (phaseIdx # rest) s =
     (case body phaseIdx s of Inl e \<Rightarrow> Inl e | Inr s' \<Rightarrow> forPhases body rest s')"

section \<open>The flux stage\<close>

definition calculateFilterVelocity ::
  "nat \<Rightarrow> 'a::{zero,plus,times,uminus} DarcyExtensiveQuantities \<Rightarrow> 'a DarcyExtensiveQuantities" where
  "calculateFilterVelocity phaseIdx eq =
     eq\<lparr>filterVelocity := (filterVelocity eq)
          (phaseIdx := vscale (mv (K eq) (potentialGrad eq phaseIdx)) (- mobility eq phaseIdx))\<rparr>"

definition fluxStep ::
  "('a::{zero,plus,times,uminus}, 'fs, 'pc) ElementContext \<Rightarrow> 'a DimVector \<Rightarrow> nat
    \<Rightarrow> 'a DarcyExtensiveQuantities \<Rightarrow> 'a DarcyExtensiveQuantities" where
  \<comment> \<open>the body of the phase loop shared by \<open>calculateFluxes_\<close> and \<open>calculateBoundaryFluxes_\<close>\<close>
  "fluxStep elemCtx nrm phaseIdx eq =
     (if \<not> model_phaseIsConsidered elemCtx phaseIdx
      then eq\<lparr>filterVelocity := (filterVelocity eq)(phaseIdx := replicate (dimWorld elemCtx) 0),
              volumeFlux := (volumeFlux eq)(phaseIdx := 0)\<rparr>
      else let eq' = calculateFilterVelocity phaseIdx eq
           in eq'\<lparr>volumeFlux := (volumeFlux eq')(phaseIdx := dot (filterVelocity eq' phaseIdx) nrm)\<rparr>)"

definition calculateFluxes ::
  "('a::{zero,plus,times,uminus}, 'fs, 'pc) ElementContext \<Rightarrow> nat \<Rightarrow> nat
    \<Rightarrow> 'a DarcyExtensiveQuantities \<Rightarrow> 'a DarcyExtensiveQuantities" where
  "calculateFluxes elemCtx scvfIdx timeIdx eq =
     (let scvf = stencil_interiorFace elemCtx timeIdx scvfIdx
      in fold (fluxStep elemCtx (normal scvf)) [0..<numPhases elemCtx] eq)"

definition calculateBoundaryFluxes ::
  "('a::{zero,plus,times,uminus}, 'fs, 'pc) ElementContext \<Rightarrow> nat \<Rightarrow> nat
    \<Rightarrow> 'a DarcyExtensiveQuantities \<Rightarrow> 'a DarcyExtensiveQuantities" where
  "calculateBoundaryFluxes elemCtx boundaryFaceIdx timeIdx eq =
     (let scvf = stencil_boundaryFace elemCtx timeIdx boundaryFaceIdx
      in fold (fluxStep elemCtx (normal scvf)) [0..<numPhases elemCtx] eq)"

section \<open>The gradient stage on interior faces\<close>

definition rawGradientStep ::
  "('a, 'fs, 'pc) ElementContext \<Rightarrow> nat \<Rightarrow> nat
    \<Rightarrow> 'a DarcyExtensiveQuantities \<Rightarrow> 'a DarcyExtensiveQuantities" where
  \<comment> \<open>\<open>Valgrind::SetUndefined\<close> marks memory for the checker and leaves its content alone\<close>
  "rawGradientStep elemCtx faceIdx phaseIdx eq =
     (if \<not> model_phaseIsConsidered elemCtx phaseIdx then eq
      else eq\<lparr>potentialGrad := (potentialGrad eq)
             (phaseIdx := gradCalc_calculateGradient elemCtx faceIdx phaseIdx)\<rparr>)"

definition hydrostaticGradient ::
  "('a::{zero,plus,minus,uminus,times,inverse}, 'fs, 'pc) ElementContext \<Rightarrow> nat
    \<Rightarrow> 'a SubControlVolumeFace \<Rightarrow> dofIdx \<Rightarrow> dofIdx \<Rightarrow> nat \<Rightarrow> 'a DimVector" where
  \<comment> \<open>the vector \<open>f\<close> of the gravity block, with the locals that block computes before its loop\<close>
  "hydrostaticGradient elemCtx timeIdx scvf inIdx exIdx phaseIdx =
     (let gIn = problem_gravity elemCtx inIdx timeIdx;
          gEx = problem_gravity elemCtx exIdx timeIdx;
          posIn = pos elemCtx inIdx timeIdx;
          posEx = pos elemCtx exIdx timeIdx;
          posFace = integrationPos scvf;
          distVecIn = vsub posIn posFace;
          distVecEx = vsub posEx posFace;
          distVecTotal = vsub posEx posIn;
          absDistTotalSquared = two_norm2 distVecTotal;
          rhoIn = intQuants_density elemCtx inIdx timeIdx phaseIdx;
          rhoEx = intQuants_density elemCtx exIdx timeIdx phaseIdx;
          pStatIn = (- rhoIn) * dot gIn distVecIn;
          pStatEx = (- rhoEx) * dot gEx distVecEx
      in vscale distVecTotal ((pStatEx - pStatIn) / absDistTotalSquared))"

definition gravityStep ::
  "('a::{zero,plus,minus,uminus,times,inverse}, 'fs, 'pc) ElementContext \<Rightarrow> nat
    \<Rightarrow> 'a SubControlVolumeFace \<Rightarrow> nat
    \<Rightarrow> 'a DarcyExtensiveQuantities \<Rightarrow> error + 'a DarcyExtensiveQuantities" where
  "gravityStep elemCtx timeIdx scvf phaseIdx eq =
     (if \<not> model_phaseIsConsidered elemCtx phaseIdx then Inr eq
      else let f = hydrostaticGradient elemCtx timeIdx scvf
                     (interiorDofIdx eq) (exteriorDofIdx eq) phaseIdx;
               eq' = eq\<lparr>potentialGrad := (potentialGrad eq)
                       (phaseIdx := vadd (potentialGrad eq phaseIdx) f)\<rparr>
           in if \<not> std_isfinite elemCtx (two_norm (std_sqrt elemCtx) (potentialGrad eq' phaseIdx))
              then Inl (NumericalProblem phaseIdx)
              else Inr eq')"

definition upstreamStep ::
  "('a::{zero,plus,times,ord}, 'fs, 'pc) ElementContext \<Rightarrow> nat \<Rightarrow> 'a DimVector \<Rightarrow> nat
    \<Rightarrow> 'a DarcyExtensiveQuantities \<Rightarrow> 'a DarcyExtensiveQuantities" where
  "upstreamStep elemCtx timeIdx faceNormal phaseIdx eq =
     (if \<not> model_phaseIsConsidered elemCtx phaseIdx then eq
      else let tmp = projection (potentialGrad eq phaseIdx) faceNormal;
               eq1 = (if 0 < tmp
                      then eq\<lparr>upstreamDofIdx := (upstreamDofIdx eq)(phaseIdx := exteriorDofIdx eq),
                              downstreamDofIdx := (downstreamDofIdx eq)(phaseIdx := interiorDofIdx eq)\<rparr>
                      else eq\<lparr>upstreamDofIdx := (upstreamDofIdx eq)(phaseIdx := interiorDofIdx eq),
                              downstreamDofIdx := (downstreamDofIdx eq)(phaseIdx := exteriorDofIdx eq)\<rparr>)
           in eq1\<lparr>mobility := (mobility eq1)
                (phaseIdx := intQuants_mobility elemCtx (upstreamDofIdx eq1 phaseIdx) timeIdx phaseIdx)\<rparr>)"

definition calculateGradients ::
  "('a::{zero,plus,minus,uminus,times,inverse,ord}, 'fs, 'pc) ElementContext \<Rightarrow> nat \<Rightarrow> nat
    \<Rightarrow> 'a DarcyExtensiveQuantities \<Rightarrow> error + 'a DarcyExtensiveQuantities" where
  "calculateGradients elemCtx faceIdx timeIdx eq =
     (let scvf = stencil_interiorFace elemCtx timeIdx faceIdx;
          faceNormal = normal scvf;
          eq1 = eq\<lparr>interiorDofIdx := interiorIndex scvf, exteriorDofIdx := exteriorIndex scvf\<rparr>;
          eq2 = fold (rawGradientStep elemCtx faceIdx) [0..<numPhases elemCtx] eq1
      in case (if EnableGravity elemCtx
               then forPhases (gravityStep elemCtx timeIdx scvf) [0..<numPhases elemCtx] eq2
               else Inr eq2) of
           Inl e \<Rightarrow> Inl e
         | Inr eq3 \<Rightarrow>
             let eq4 = eq3\<lparr>K := problem_intersectionIntrinsicPermeability elemCtx faceIdx timeIdx\<rparr>
             in Inr (fold (upstreamStep elemCtx timeIdx faceNormal) [0..<numPhases elemCtx] eq4))"

section \<open>The gradient stage on boundary faces\<close>

definition rawBoundaryGradientStep ::
  "('a, 'fs, 'pc) ElementContext \<Rightarrow> 'fs \<Rightarrow> nat \<Rightarrow> nat
    \<Rightarrow> 'a DarcyExtensiveQuantities \<Rightarrow> 'a DarcyExtensiveQuantities" where
  "rawBoundaryGradientStep elemCtx fluidState boundaryFaceIdx phaseIdx eq =
     (if \<not> model_phaseIsConsidered elemCtx phaseIdx then eq
      else eq\<lparr>potentialGrad := (potentialGrad eq)
             (phaseIdx := gradCalc_calculateBoundaryGradient elemCtx fluidState boundaryFaceIdx phaseIdx)\<rparr>)"

definition boundaryHydrostaticGradient ::
  "('a::{zero,plus,minus,uminus,times,inverse}, 'fs, 'pc) ElementContext \<Rightarrow> nat
    \<Rightarrow> 'a SubControlVolumeFace \<Rightarrow> dofIdx \<Rightarrow> nat \<Rightarrow> 'a DimVector" where
  \<comment> \<open>the vector \<open>f\<close> of the boundary gravity block; it divides by the distance, not its square\<close>
  "boundaryHydrostaticGradient elemCtx timeIdx scvf inIdx phaseIdx =
     (let gIn = problem_gravity elemCtx inIdx timeIdx;
          posIn = pos elemCtx inIdx timeIdx;
          posFace = integrationPos scvf;
          distVecIn = vsub posIn posFace;
          absDist = two_norm (std_sqrt elemCtx) distVecIn;
          rhoIn = intQuants_density elemCtx inIdx timeIdx phaseIdx;
          pStatIn = (- rhoIn) * dot gIn distVecIn
      in vscale distVecIn ((0 - pStatIn) / absDist))"

definition boundaryGravityStep ::
  "('a::{zero,plus,minus,uminus,times,inverse}, 'fs, 'pc) ElementContext \<Rightarrow> nat
    \<Rightarrow> 'a SubControlVolumeFace \<Rightarrow> nat
    \<Rightarrow> 'a DarcyExtensiveQuantities \<Rightarrow> error + 'a DarcyExtensiveQuantities" where
  "boundaryGravityStep elemCtx timeIdx scvf phaseIdx eq =
     (if \<not> model_phaseIsConsidered elemCtx phaseIdx then Inr eq
      else let f = boundaryHydrostaticGradient elemCtx timeIdx scvf (interiorDofIdx eq) phaseIdx;
               eq' = eq\<lparr>potentialGrad := (potentialGrad eq)
                       (phaseIdx := vadd (potentialGrad eq phaseIdx) f)\<rparr>
           in if \<not> std_isfinite elemCtx (two_norm (std_sqrt elemCtx) (potentialGrad eq' phaseIdx))
              then Inl (NumericalProblem phaseIdx)
              else Inr eq')"

definition boundaryUpstreamStep ::
  "('a::{zero,plus,times,inverse,ord}, 'fs, 'pc) ElementContext \<Rightarrow> nat \<Rightarrow> 'fs \<Rightarrow> 'pc
    \<Rightarrow> 'a DimVector \<Rightarrow> (nat \<Rightarrow> 'a) \<Rightarrow> nat
    \<Rightarrow> 'a DarcyExtensiveQuantities \<Rightarrow> 'a DarcyExtensiveQuantities" where
  "boundaryUpstreamStep elemCtx timeIdx fluidState paramCache faceNormal kr phaseIdx eq =
     (if \<not> model_phaseIsConsidered elemCtx phaseIdx then eq
      else let tmp = projection (potentialGrad eq phaseIdx) faceNormal;
               eq1 = (if 0 < tmp
                      then eq\<lparr>upstreamDofIdx := (upstreamDofIdx eq)(phaseIdx := exteriorDofIdx eq),
                              downstreamDofIdx := (downstreamDofIdx eq)(phaseIdx := interiorDofIdx eq)\<rparr>
                      else eq\<lparr>upstreamDofIdx := (upstreamDofIdx eq)(phaseIdx := interiorDofIdx eq),
                              downstreamDofIdx := (downstreamDofIdx eq)(phaseIdx := exteriorDofIdx eq)\<rparr>)
           in if sint (upstreamDofIdx eq1 phaseIdx) < 0
              then eq1\<lparr>mobility := (mobility eq1)
                     (phaseIdx := kr phaseIdx
                        / FluidSystem_viscosity elemCtx fluidState paramCache phaseIdx)\<rparr>
              else eq1\<lparr>mobility := (mobility eq1)
                     (phaseIdx := intQuants_mobility elemCtx (interiorDofIdx eq1) timeIdx phaseIdx)\<rparr>)"

definition calculateBoundaryGradients ::
  "('a::{zero,plus,minus,uminus,times,inverse,ord}, 'fs, 'pc) ElementContext \<Rightarrow> nat \<Rightarrow> nat
    \<Rightarrow> 'fs \<Rightarrow> 'pc
    \<Rightarrow> 'a DarcyExtensiveQuantities \<Rightarrow> error + 'a DarcyExtensiveQuantities" where
  "calculateBoundaryGradients elemCtx boundaryFaceIdx timeIdx fluidState paramCache eq =
     (let eq1 = fold (rawBoundaryGradientStep elemCtx fluidState boundaryFaceIdx)
                  [0..<numPhases elemCtx] eq;
          scvf = stencil_boundaryFace elemCtx timeIdx boundaryFaceIdx;
          eq2 = eq1\<lparr>interiorDofIdx := interiorIndex scvf, exteriorDofIdx := - 1\<rparr>;
          eq3 = eq2\<lparr>K := intQuants_intrinsicPermeability elemCtx (interiorDofIdx eq2) timeIdx\<rparr>
      in case (if EnableGravity elemCtx
               then forPhases (boundaryGravityStep elemCtx timeIdx scvf) [0..<numPhases elemCtx] eq3
               else Inr eq3) of
           Inl e \<Rightarrow> Inl e
         | Inr eq4 \<Rightarrow>
             let faceNormal = normal scvf;
                 kr = MaterialLaw_relativePermeabilities elemCtx (interiorDofIdx eq4) timeIdx fluidState
             in Inr (fold (boundaryUpstreamStep elemCtx timeIdx fluidState paramCache faceNormal kr)
                       [0..<numPhases elemCtx] eq4))"

section \<open>One face evaluation\<close>

definition gradientsThenFluxes ::
  "('a::{zero,plus,minus,uminus,times,inverse,ord}, 'fs, 'pc) ElementContext \<Rightarrow> nat \<Rightarrow> nat
    \<Rightarrow> 'a DarcyExtensiveQuantities \<Rightarrow> error + 'a DarcyExtensiveQuantities" where
  \<comment> \<open>Modelled from the spec: the caller of the two stages is not part of the sources at hand;
      section 2 has it invoke the gradient stage once and then the flux stage once, and an
      exception of the first leaves the second unreached.\<close>
  "gradientsThenFluxes elemCtx faceIdx timeIdx eq =
     (case calculateGradients elemCtx faceIdx timeIdx eq of
        Inl e \<Rightarrow> Inl e
      | Inr eq' \<Rightarrow> Inr (calculateFluxes elemCtx faceIdx timeIdx eq'))"

definition boundaryGradientsThenFluxes ::
  "('a::{zero,plus,minus,uminus,times,inverse,ord}, 'fs, 'pc) ElementContext \<Rightarrow> nat \<Rightarrow> nat
    \<Rightarrow> 'fs \<Rightarrow> 'pc
    \<Rightarrow> 'a DarcyExtensiveQuantities \<Rightarrow> error + 'a DarcyExtensiveQuantities" where
  \<comment> \<open>Modelled from the spec: the boundary counterpart of \<open>gradientsThenFluxes\<close>, for the
      same absent caller.\<close>
  "boundaryGradientsThenFluxes elemCtx boundaryFaceIdx timeIdx fluidState paramCache eq =
     (case calculateBoundaryGradients elemCtx boundaryFaceIdx timeIdx fluidState paramCache eq of
        Inl e \<Rightarrow> Inl e
      | Inr eq' \<Rightarrow> Inr (calculateBoundaryFluxes elemCtx boundaryFaceIdx timeIdx eq'))"

section \<open>Primary variables\<close>

text \<open>
  \<open>FvBasePrimaryVariables::makeEvaluation\<close> opens a file with a fixed path on every call
  and reads its first line. The file is an input of the model: \<open>None\<close> when it cannot be
  opened, its content otherwise. \<open>Toolbox::createVariable\<close> and \<open>Toolbox::createConstant\<close>
  belong to the automatic-differentiation toolbox and are parameters.
\<close>

record ('a, 'e) Toolbox =
  createVariable :: "'a \<Rightarrow> nat \<Rightarrow> 'e"
  createConstant :: "'a \<Rightarrow> 'e"

definition getline :: "string option \<Rightarrow> string" where
  \<comment> \<open>\<open>std::getline\<close> on a fresh stream: up to the first newline; a stream that failed to
      open leaves the target string as it was, empty\<close>
  "getline inputFile =
     (case inputFile of None \<Rightarrow> [] | Some content \<Rightarrow> takeWhile (\<lambda>c. c \<noteq> CHR 0x0A) content)"

definition makeEvaluation ::
  "('a, 'e) Toolbox \<Rightarrow> string option \<Rightarrow> 'a list \<Rightarrow> nat \<Rightarrow> nat \<Rightarrow> 'e" where
  "makeEvaluation toolbox inputFile priVars varIdx timeIdx0 =
     (let wrtInitial = getline inputFile;
          timeIdx = (if wrtInitial = ''true''
                     then (if timeIdx0 = 0 then 1 else 0)
                     else timeIdx0)
      in if timeIdx = (0::nat)
         then createVariable toolbox (priVars ! varIdx) varIdx
         else createConstant toolbox (priVars ! varIdx))"

section \<open>The hydrostatic correction in the words of the specification\<close>

definition hydrostaticCorrection_spec ::
  "(real DimVector \<Rightarrow> real DimVector \<Rightarrow> real DimVector)
    \<Rightarrow> (real, 'fs, 'pc) ElementContext \<Rightarrow> nat \<Rightarrow> real SubControlVolumeFace \<Rightarrow> nat
    \<Rightarrow> real DimVector" where
  \<comment> \<open>Section 4.1, step 2, word by word: the gravity at the face is the arithmetic mean of
      the two control-volume values, the hydrostatic pressure of a side is \<open>- \<rho> (g \<cdot> d)\<close>, and
      the correction is the centre-to-centre vector scaled by the pressure difference over
      the squared distance. The first argument says how \<open>d\<close> is formed from the centre of a
      volume and the integration point of the face.\<close>
  "hydrostaticCorrection_spec displacement elemCtx timeIdx scvf phaseIdx =
     (let inIdx = interiorIndex scvf;
          exIdx = exteriorIndex scvf;
          g = map2 (\<lambda>a b. (a + b) / 2)
                (problem_gravity elemCtx inIdx timeIdx) (problem_gravity elemCtx exIdx timeIdx);
          dIn = displacement (pos elemCtx inIdx timeIdx) (integrationPos scvf);
          dEx = displacement (pos elemCtx exIdx timeIdx) (integrationPos scvf);
          pStatIn = - (intQuants_density elemCtx inIdx timeIdx phaseIdx * dot g dIn);
          pStatEx = - (intQuants_density elemCtx exIdx timeIdx phaseIdx * dot g dEx);
          centerToCenter = vsub (pos elemCtx exIdx timeIdx) (pos elemCtx inIdx timeIdx)
      in vscale centerToCenter ((pStatEx - pStatIn) / two_norm2 centerToCenter))"

definition centerToFace :: "real DimVector \<Rightarrow> real DimVector \<Rightarrow> real DimVector" where
  \<comment> \<open>the displacement from the centre of a volume to the integration point\<close>
  "centerToFace center integrationPoint = vsub integrationPoint center"

definition faceToCenter :: "real DimVector \<Rightarrow> real DimVector \<Rightarrow> real DimVector" where
  \<comment> \<open>the displacement from the integration point to the centre of a volume\<close>
  "faceToCenter center integrationPoint = vsub center integrationPoint"

section \<open>A one-dimensional face with two phases\<close>

text \<open>
  Concrete inputs on which the functions above are evaluated: one space dimension, two
  phases of which only phase 0 is considered, control-volume centres at 0 and 2 and the
  face at 1. Scalars are reals; the scalar format of the example counts a magnitude of up
  to 1000 as finite.
\<close>

definition exFace :: "real SubControlVolumeFace" where
  "exFace = \<lparr>normal = [1], interiorIndex = 0, exteriorIndex = 1, integrationPos = [1]\<rparr>"

definition exCtx :: "(real, unit, unit) ElementContext" where
  "exCtx = \<lparr>numPhases = 2, dimWorld = 1, EnableGravity = True,
     model_phaseIsConsidered = (\<lambda>p. p = 0),
     stencil_interiorFace = (\<lambda>_ _. exFace),
     stencil_boundaryFace = (\<lambda>_ _. exFace),
     gradCalc_calculateGradient = (\<lambda>_ _. [- 4]),
     gradCalc_calculateBoundaryGradient = (\<lambda>_ _ _. [0]),
     problem_gravity = (\<lambda>_ _. [- 2]),
     problem_intersectionIntrinsicPermeability = (\<lambda>_ _. [[2]]),
     pos = (\<lambda>d _. if d = 0 then [0] else [2]),
     intQuants_density = (\<lambda>_ _ _. 1),
     intQuants_mobility = (\<lambda>d _ _. if d = 0 then 4 else 5),
     intQuants_intrinsicPermeability = (\<lambda>_ _. [[2]]),
     MaterialLaw_relativePermeabilities = (\<lambda>_ _ _ _. 8),
     FluidSystem_viscosity = (\<lambda>_ _ _. 2),
     std_isfinite = (\<lambda>x. \<bar>x\<bar> \<le> 1000),
     std_sqrt = sqrt\<rparr>"

definition exEq :: "real DarcyExtensiveQuantities" where
  \<comment> \<open>a record on which no stage has run: whatever the memory held\<close>
  "exEq = \<lparr>K = [[7]], interiorDofIdx = 0, exteriorDofIdx = 0,
     upstreamDofIdx = (\<lambda>_. 0), downstreamDofIdx = (\<lambda>_. 0),
     mobility = (\<lambda>_. 3), filterVelocity = (\<lambda>_. [9]), volumeFlux = (\<lambda>_. 9),
     potentialGrad = (\<lambda>_. [5])\<rparr>"

definition exTieCtx :: "(real, unit, unit) ElementContext" where
  \<comment> \<open>the raw gradients cancel the hydrostatic term: the corrected gradient is zero\<close>
  "exTieCtx = exCtx\<lparr>gradCalc_calculateGradient := (\<lambda>_ _. [- 2]),
                    gradCalc_calculateBoundaryGradient := (\<lambda>_ _ _. [2])\<rparr>"

definition exInflowCtx :: "(real, unit, unit) ElementContext" where
  \<comment> \<open>no gravity, the pressure rises along the normal\<close>
  "exInflowCtx = exCtx\<lparr>EnableGravity := False,
                       gradCalc_calculateGradient := (\<lambda>_ _. [3]),
                       gradCalc_calculateBoundaryGradient := (\<lambda>_ _ _. [3]),
                       MaterialLaw_relativePermeabilities := (\<lambda>_ _ _ _. 6),
                       FluidSystem_viscosity := (\<lambda>_ _ _. 3)\<rparr>"

definition exNoGravityCtx :: "(real, unit, unit) ElementContext" where
  "exNoGravityCtx = exCtx\<lparr>EnableGravity := False\<rparr>"

definition exNarrowCtx :: "(real, unit, unit) ElementContext" where
  \<comment> \<open>a scalar format whose largest finite magnitude is 1\<close>
  "exNarrowCtx = exCtx\<lparr>std_isfinite := (\<lambda>x. \<bar>x\<bar> \<le> 1)\<rparr>"

definition exToolbox :: "(real, real \<times> real list) Toolbox" where
  \<comment> \<open>an evaluation is a value with its derivatives, here for one primary variable\<close>
  "exToolbox = \<lparr>createVariable = (\<lambda>v i. (v, map (\<lambda>j. if j = i then 1 else 0) [0..<1])),
                createConstant = (\<lambda>v. (v, replicate 1 0))\<rparr>"


definition exSkewCtx :: "(real, unit, unit) ElementContext" where
  \<comment> \<open>gravity and density differ between the two control volumes\<close>
  "exSkewCtx = exCtx\<lparr>problem_gravity := (\<lambda>d _. if d = 0 then [- 2] else [- 4]),
                     intQuants_density := (\<lambda>d _ _. if d = 0 then 1 else 3)\<rparr>"

text \<open>What the gradient stages leave of \<open>exEq\<close> in these contexts.\<close>

definition exInterior :: "real DarcyExtensiveQuantities" where
  "exInterior = exEq\<lparr>K := [[2]], interiorDofIdx := 0, exteriorDofIdx := 1,
      upstreamDofIdx := (upstreamDofIdx exEq)(0 := 0),
      downstreamDofIdx := (downstreamDofIdx exEq)(0 := 1),
      mobility := (mobility exEq)(0 := 4),
      potentialGrad := (potentialGrad exEq)(0 := [- 2])\<rparr>"

definition exBoundary :: "real DarcyExtensiveQuantities" where
  "exBoundary = exEq\<lparr>K := [[2]], interiorDofIdx := 0, exteriorDofIdx := - 1,
      upstreamDofIdx := (upstreamDofIdx exEq)(0 := 0),
      downstreamDofIdx := (downstreamDofIdx exEq)(0 := - 1),
      mobility := (mobility exEq)(0 := 4),
      potentialGrad := (potentialGrad exEq)(0 := [- 2])\<rparr>"

definition exTieInterior :: "real DarcyExtensiveQuantities" where
  "exTieInterior = exEq\<lparr>K := [[2]], interiorDofIdx := 0, exteriorDofIdx := 1,
      upstreamDofIdx := (upstreamDofIdx exEq)(0 := 0),
      downstreamDofIdx := (downstreamDofIdx exEq)(0 := 1),
      mobility := (mobility exEq)(0 := 4),
      potentialGrad := (potentialGrad exEq)(0 := [0])\<rparr>"

definition exInflowInterior :: "real DarcyExtensiveQuantities" where
  "exInflowInterior = exEq\<lparr>K := [[2]], interiorDofIdx := 0, exteriorDofIdx := 1,
      upstreamDofIdx := (upstreamDofIdx exEq)(0 := 1),
      downstreamDofIdx := (downstreamDofIdx exEq)(0 := 0),
      mobility := (mobility exEq)(0 := 5),
      potentialGrad := (potentialGrad exEq)(0 := [3])\<rparr>"

definition exInflowBoundary :: "real DarcyExtensiveQuantities" where
  "exInflowBoundary = exEq\<lparr>K := [[2]], interiorDofIdx := 0, exteriorDofIdx := - 1,
      upstreamDofIdx := (upstreamDofIdx exEq)(0 := - 1),
      downstreamDofIdx := (downstreamDofIdx exEq)(0 := 0),
      mobility := (mobility exEq)(0 := 2),
      potentialGrad := (potentialGrad exEq)(0 := [3])\<rparr>"

definition exOutflowCtx :: "(real, unit, unit) ElementContext" where
  \<comment> \<open>no gravity, the pressure falls along the normal\<close>
  "exOutflowCtx = exInflowCtx\<lparr>gradCalc_calculateBoundaryGradient := (\<lambda>_ _ _. [- 3])\<rparr>"

definition exOutflowBoundary :: "real DarcyExtensiveQuantities" where
  "exOutflowBoundary = exEq\<lparr>K := [[2]], interiorDofIdx := 0, exteriorDofIdx := - 1,
      upstreamDofIdx := (upstreamDofIdx exEq)(0 := 0),
      downstreamDofIdx := (downstreamDofIdx exEq)(0 := - 1),
      mobility := (mobility exEq)(0 := 4),
      potentialGrad := (potentialGrad exEq)(0 := [- 3])\<rparr>"

section \<open>The phase loops in closed form\<close>

lemma fluxLoop_closed:
  "fold (fluxStep elemCtx nrm) [0..<n] eq =
     eq\<lparr>filterVelocity := (\<lambda>p. if p < n
              then (if model_phaseIsConsidered elemCtx p
                    then vscale (mv (K eq) (potentialGrad eq p)) (- mobility eq p)
                    else replicate (dimWorld elemCtx) 0)
              else filterVelocity eq p),
         volumeFlux := (\<lambda>p. if p < n
              then (if model_phaseIsConsidered elemCtx p
                    then dot (vscale (mv (K eq) (potentialGrad eq p)) (- mobility eq p)) nrm
                    else 0)
              else volumeFlux eq p)\<rparr>"
  (is "?loop n = ?closed n")
proof (induction n)
  case 0
  show ?case by simp
next
  case (Suc n)
  have "?loop (Suc n) = fluxStep elemCtx nrm n (?loop n)"
    by simp
  also have "\<dots> = fluxStep elemCtx nrm n (?closed n)"
    by (simp only: Suc)
  also have "\<dots> = ?closed (Suc n)"
    by (simp add: fluxStep_def calculateFilterVelocity_def Let_def fun_eq_iff less_Suc_eq)
  finally show ?case .
qed

lemma forPhases_snoc:
  "forPhases body (ps @ [p]) s =
     (case forPhases body ps s of Inl e \<Rightarrow> Inl e | Inr s' \<Rightarrow> body p s')"
  by (induction ps arbitrary: s) (auto split: sum.splits)

lemma rawGradientLoop_closed:
  "fold (rawGradientStep elemCtx faceIdx) [0..<n] eq =
     eq\<lparr>potentialGrad := (\<lambda>p. if p < n \<and> model_phaseIsConsidered elemCtx p
              then gradCalc_calculateGradient elemCtx faceIdx p
              else potentialGrad eq p)\<rparr>"
  (is "?loop n = ?closed n")
proof (induction n)
  case 0
  show ?case by simp
next
  case (Suc n)
  have "?loop (Suc n) = rawGradientStep elemCtx faceIdx n (?loop n)"
    by simp
  also have "\<dots> = rawGradientStep elemCtx faceIdx n (?closed n)"
    by (simp only: Suc)
  also have "\<dots> = ?closed (Suc n)"
    by (rule DarcyExtensiveQuantities.equality)
      (auto simp add: rawGradientStep_def fun_eq_iff less_Suc_eq)
  finally show ?case .
qed

lemma rawBoundaryGradientLoop_closed:
  "fold (rawBoundaryGradientStep elemCtx fluidState faceIdx) [0..<n] eq =
     eq\<lparr>potentialGrad := (\<lambda>p. if p < n \<and> model_phaseIsConsidered elemCtx p
              then gradCalc_calculateBoundaryGradient elemCtx fluidState faceIdx p
              else potentialGrad eq p)\<rparr>"
  (is "?loop n = ?closed n")
proof (induction n)
  case 0
  show ?case by simp
next
  case (Suc n)
  have "?loop (Suc n) = rawBoundaryGradientStep elemCtx fluidState faceIdx n (?loop n)"
    by simp
  also have "\<dots> = rawBoundaryGradientStep elemCtx fluidState faceIdx n (?closed n)"
    by (simp only: Suc)
  also have "\<dots> = ?closed (Suc n)"
    by (rule DarcyExtensiveQuantities.equality)
      (auto simp add: rawBoundaryGradientStep_def fun_eq_iff less_Suc_eq)
  finally show ?case .
qed

lemma upstreamLoop_closed:
  "fold (upstreamStep elemCtx timeIdx nrm) [0..<n] eq =
     eq\<lparr>upstreamDofIdx := (\<lambda>p. if p < n \<and> model_phaseIsConsidered elemCtx p
              then (if 0 < projection (potentialGrad eq p) nrm
                    then exteriorDofIdx eq else interiorDofIdx eq)
              else upstreamDofIdx eq p),
         downstreamDofIdx := (\<lambda>p. if p < n \<and> model_phaseIsConsidered elemCtx p
              then (if 0 < projection (potentialGrad eq p) nrm
                    then interiorDofIdx eq else exteriorDofIdx eq)
              else downstreamDofIdx eq p),
         mobility := (\<lambda>p. if p < n \<and> model_phaseIsConsidered elemCtx p
              then intQuants_mobility elemCtx
                     (if 0 < projection (potentialGrad eq p) nrm
                      then exteriorDofIdx eq else interiorDofIdx eq) timeIdx p
              else mobility eq p)\<rparr>"
  (is "?loop n = ?closed n")
proof (induction n)
  case 0
  show ?case by simp
next
  case (Suc n)
  have "?loop (Suc n) = upstreamStep elemCtx timeIdx nrm n (?loop n)"
    by simp
  also have "\<dots> = upstreamStep elemCtx timeIdx nrm n (?closed n)"
    by (simp only: Suc)
  also have "\<dots> = ?closed (Suc n)"
    by (rule DarcyExtensiveQuantities.equality)
      (auto simp add: upstreamStep_def Let_def fun_eq_iff less_Suc_eq)
  finally show ?case .
qed

lemma boundaryUpstreamLoop_closed:
  "fold (boundaryUpstreamStep elemCtx timeIdx fluidState paramCache nrm kr) [0..<n] eq =
     eq\<lparr>upstreamDofIdx := (\<lambda>p. if p < n \<and> model_phaseIsConsidered elemCtx p
              then (if 0 < projection (potentialGrad eq p) nrm
                    then exteriorDofIdx eq else interiorDofIdx eq)
              else upstreamDofIdx eq p),
         downstreamDofIdx := (\<lambda>p. if p < n \<and> model_phaseIsConsidered elemCtx p
              then (if 0 < projection (potentialGrad eq p) nrm
                    then interiorDofIdx eq else exteriorDofIdx eq)
              else downstreamDofIdx eq p),
         mobility := (\<lambda>p. if p < n \<and> model_phaseIsConsidered elemCtx p
              then (if sint (if 0 < projection (potentialGrad eq p) nrm
                             then exteriorDofIdx eq else interiorDofIdx eq) < 0
                    then kr p / FluidSystem_viscosity elemCtx fluidState paramCache p
                    else intQuants_mobility elemCtx (interiorDofIdx eq) timeIdx p)
              else mobility eq p)\<rparr>"
  (is "?loop n = ?closed n")
proof (induction n)
  case 0
  show ?case by simp
next
  case (Suc n)
  have "?loop (Suc n) =
          boundaryUpstreamStep elemCtx timeIdx fluidState paramCache nrm kr n (?loop n)"
    by simp
  also have "\<dots> = boundaryUpstreamStep elemCtx timeIdx fluidState paramCache nrm kr n (?closed n)"
    by (simp only: Suc)
  also have "\<dots> = ?closed (Suc n)"
    by (rule DarcyExtensiveQuantities.equality)
      (auto simp add: boundaryUpstreamStep_def Let_def fun_eq_iff less_Suc_eq)
  finally show ?case .
qed

text \<open>
  The two gravity loops have one shape: add a vector to the gradient of the phase, test the
  result, throw or go on. The lemmas below are about that shape.
\<close>

lemma correctionLoop_ok:
  assumes step: "\<And>p eq. step p eq =
      (if \<not> C p then Inr eq
       else if \<not> fin (vadd (potentialGrad eq p) (F (interiorDofIdx eq) (exteriorDofIdx eq) p))
            then Inl (NumericalProblem p)
            else Inr (eq\<lparr>potentialGrad := (potentialGrad eq)
                       (p := vadd (potentialGrad eq p) (F (interiorDofIdx eq) (exteriorDofIdx eq) p))\<rparr>))"
    and ok: "\<And>q. q < n \<Longrightarrow> C q \<Longrightarrow>
               fin (vadd (potentialGrad eq q) (F (interiorDofIdx eq) (exteriorDofIdx eq) q))"
  shows "forPhases step [0..<n] eq =
           Inr (eq\<lparr>potentialGrad := (\<lambda>p. if p < n \<and> C p
                  then vadd (potentialGrad eq p) (F (interiorDofIdx eq) (exteriorDofIdx eq) p)
                  else potentialGrad eq p)\<rparr>)"
  (is "?loop n = Inr (?closed n)")
  using ok
proof (induction n)
  case 0
  show ?case by simp
next
  case (Suc n)
  have ih: "?loop n = Inr (?closed n)"
    using Suc.IH Suc.prems by simp
  have okn: "C n \<Longrightarrow>
      fin (vadd (potentialGrad eq n) (F (interiorDofIdx eq) (exteriorDofIdx eq) n))"
    using Suc.prems by simp
  have "?loop (Suc n) = (case ?loop n of Inl e \<Rightarrow> Inl e | Inr s' \<Rightarrow> step n s')"
    by (simp add: forPhases_snoc)
  also have "\<dots> = step n (?closed n)"
    by (simp only: ih sum.case)
  also have "\<dots> = Inr (?closed (Suc n))"
  proof (cases "C n")
    case True
    have "?closed n\<lparr>potentialGrad := (potentialGrad (?closed n))
            (n := vadd (potentialGrad eq n) (F (interiorDofIdx eq) (exteriorDofIdx eq) n))\<rparr>
          = ?closed (Suc n)"
      by (rule DarcyExtensiveQuantities.equality)
        (auto simp add: True fun_eq_iff less_Suc_eq)
    then show ?thesis
      using okn True by (simp add: step)
  next
    case False
    have "?closed n = ?closed (Suc n)"
      by (rule DarcyExtensiveQuantities.equality)
        (auto simp add: False fun_eq_iff less_Suc_eq)
    then show ?thesis
      using False by (simp add: step)
  qed
  finally show ?case .
qed

lemma correctionLoop_fail:
  assumes step: "\<And>p eq. step p eq =
      (if \<not> C p then Inr eq
       else if \<not> fin (vadd (potentialGrad eq p) (F (interiorDofIdx eq) (exteriorDofIdx eq) p))
            then Inl (NumericalProblem p)
            else Inr (eq\<lparr>potentialGrad := (potentialGrad eq)
                       (p := vadd (potentialGrad eq p) (F (interiorDofIdx eq) (exteriorDofIdx eq) p))\<rparr>))"
    and bad: "q < n" "C q"
      "\<not> fin (vadd (potentialGrad eq q) (F (interiorDofIdx eq) (exteriorDofIdx eq) q))"
  shows "\<exists>q'. q' \<le> q \<and> C q' \<and>
           \<not> fin (vadd (potentialGrad eq q') (F (interiorDofIdx eq) (exteriorDofIdx eq) q')) \<and>
           (\<forall>k<q'. C k \<longrightarrow>
              fin (vadd (potentialGrad eq k) (F (interiorDofIdx eq) (exteriorDofIdx eq) k))) \<and>
           forPhases step [0..<n] eq = Inl (NumericalProblem q')"
  using bad
proof (induction n arbitrary: q)
  case 0
  then show ?case by simp
next
  case (Suc n)
  let ?bad = "\<lambda>q. C q \<and>
     \<not> fin (vadd (potentialGrad eq q) (F (interiorDofIdx eq) (exteriorDofIdx eq) q))"
  from Suc.prems have qb: "?bad q" by simp
  show ?case
  proof (cases "\<exists>q0<n. ?bad q0")
    case True
    then obtain q0 where q0: "q0 < n" "C q0"
      "\<not> fin (vadd (potentialGrad eq q0) (F (interiorDofIdx eq) (exteriorDofIdx eq) q0))"
      by blast
    from Suc.IH [OF q0] obtain q' where q': "q' \<le> q0" "?bad q'"
        "\<forall>k<q'. C k \<longrightarrow>
              fin (vadd (potentialGrad eq k) (F (interiorDofIdx eq) (exteriorDofIdx eq) k))"
        "forPhases step [0..<n] eq = Inl (NumericalProblem q')" by blast
    have le: "q' \<le> q"
    proof (rule ccontr)
      assume "\<not> q' \<le> q"
      then have "q < q'" by simp
      with q'(3) qb show False by blast
    qed
    have "forPhases step [0..<Suc n] eq = Inl (NumericalProblem q')"
      by (simp add: forPhases_snoc q'(4))
    with q' le show ?thesis by blast
  next
    case False
    then have allok: "\<And>k. k < n \<Longrightarrow> C k \<Longrightarrow>
        fin (vadd (potentialGrad eq k) (F (interiorDofIdx eq) (exteriorDofIdx eq) k))"
      by blast
    have qn: "q = n" using False Suc.prems by (metis less_Suc_eq)
    have pre: "forPhases step [0..<n] eq =
           Inr (eq\<lparr>potentialGrad := (\<lambda>p. if p < n \<and> C p
                  then vadd (potentialGrad eq p) (F (interiorDofIdx eq) (exteriorDofIdx eq) p)
                  else potentialGrad eq p)\<rparr>)"
      by (rule correctionLoop_ok [OF step allok])
    have "forPhases step [0..<Suc n] eq =
            (case forPhases step [0..<n] eq of Inl e \<Rightarrow> Inl e | Inr s' \<Rightarrow> step n s')"
      by (simp add: forPhases_snoc)
    also have "\<dots> = Inl (NumericalProblem n)"
      using qb qn by (simp add: pre step)
    finally have "forPhases step [0..<Suc n] eq = Inl (NumericalProblem n)" .
    with qb qn allok show ?thesis by blast
  qed
qed

section \<open>The gradient stages in closed form\<close>

lemma gravityStep_shape:
  "gravityStep elemCtx timeIdx scvf p eq =
      (if \<not> model_phaseIsConsidered elemCtx p then Inr eq
       else if \<not> (\<lambda>v. std_isfinite elemCtx (two_norm (std_sqrt elemCtx) v))
                 (vadd (potentialGrad eq p)
                   (hydrostaticGradient elemCtx timeIdx scvf (interiorDofIdx eq) (exteriorDofIdx eq) p))
            then Inl (NumericalProblem p)
            else Inr (eq\<lparr>potentialGrad := (potentialGrad eq)
                       (p := vadd (potentialGrad eq p)
                   (hydrostaticGradient elemCtx timeIdx scvf (interiorDofIdx eq) (exteriorDofIdx eq) p))\<rparr>))"
  by (simp add: gravityStep_def Let_def)

lemma boundaryGravityStep_shape:
  "boundaryGravityStep elemCtx timeIdx scvf p eq =
      (if \<not> model_phaseIsConsidered elemCtx p then Inr eq
       else if \<not> (\<lambda>v. std_isfinite elemCtx (two_norm (std_sqrt elemCtx) v))
                 (vadd (potentialGrad eq p)
                   ((\<lambda>i (e::dofIdx). boundaryHydrostaticGradient elemCtx timeIdx scvf i)
                      (interiorDofIdx eq) (exteriorDofIdx eq) p))
            then Inl (NumericalProblem p)
            else Inr (eq\<lparr>potentialGrad := (potentialGrad eq)
                       (p := vadd (potentialGrad eq p)
                   ((\<lambda>i (e::dofIdx). boundaryHydrostaticGradient elemCtx timeIdx scvf i)
                      (interiorDofIdx eq) (exteriorDofIdx eq) p))\<rparr>))"
  by (simp add: boundaryGravityStep_def Let_def)

lemma calculateGradients_success:
  fixes elemCtx :: "('a::{zero,plus,minus,uminus,times,inverse,ord}, 'fs, 'pc) ElementContext"
    and faceIdx timeIdx :: nat
  defines "n \<equiv> numPhases elemCtx"
  defines "scvf \<equiv> stencil_interiorFace elemCtx timeIdx faceIdx"
  defines "G \<equiv> \<lambda>p. if EnableGravity elemCtx
      then vadd (gradCalc_calculateGradient elemCtx faceIdx p)
             (hydrostaticGradient elemCtx timeIdx scvf (interiorIndex scvf) (exteriorIndex scvf) p)
      else gradCalc_calculateGradient elemCtx faceIdx p"
  defines "up \<equiv> \<lambda>p. if 0 < projection (G p) (normal scvf)
                      then exteriorIndex scvf else interiorIndex scvf"
  defines "down \<equiv> \<lambda>p. if 0 < projection (G p) (normal scvf)
                      then interiorIndex scvf else exteriorIndex scvf"
  assumes ok: "EnableGravity elemCtx \<Longrightarrow> (\<And>q. q < n \<Longrightarrow> model_phaseIsConsidered elemCtx q \<Longrightarrow>
                 std_isfinite elemCtx (two_norm (std_sqrt elemCtx) (G q)))"
  shows "calculateGradients elemCtx faceIdx timeIdx eq =
     Inr (eq\<lparr>K := problem_intersectionIntrinsicPermeability elemCtx faceIdx timeIdx,
           interiorDofIdx := interiorIndex scvf,
           exteriorDofIdx := exteriorIndex scvf,
           upstreamDofIdx := (\<lambda>p. if p < n \<and> model_phaseIsConsidered elemCtx p
                                then up p else upstreamDofIdx eq p),
           downstreamDofIdx := (\<lambda>p. if p < n \<and> model_phaseIsConsidered elemCtx p
                                then down p else downstreamDofIdx eq p),
           mobility := (\<lambda>p. if p < n \<and> model_phaseIsConsidered elemCtx p
                                then intQuants_mobility elemCtx (up p) timeIdx p else mobility eq p),
           potentialGrad := (\<lambda>p. if p < n \<and> model_phaseIsConsidered elemCtx p
                                then G p else potentialGrad eq p)\<rparr>)"
proof -
  define eq1 where "eq1 = eq\<lparr>interiorDofIdx := interiorIndex scvf, exteriorDofIdx := exteriorIndex scvf\<rparr>"
  define eq2 where "eq2 = fold (rawGradientStep elemCtx faceIdx) [0..<n] eq1"
  have eq2_grad: "potentialGrad eq2 = (\<lambda>p. if p < n \<and> model_phaseIsConsidered elemCtx p
              then gradCalc_calculateGradient elemCtx faceIdx p else potentialGrad eq p)"
    and eq2_in: "interiorDofIdx eq2 = interiorIndex scvf"
    and eq2_ex: "exteriorDofIdx eq2 = exteriorIndex scvf"
    and eq2_rest: "K eq2 = K eq" "upstreamDofIdx eq2 = upstreamDofIdx eq"
      "downstreamDofIdx eq2 = downstreamDofIdx eq" "mobility eq2 = mobility eq"
      "filterVelocity eq2 = filterVelocity eq" "volumeFlux eq2 = volumeFlux eq"
      "DarcyExtensiveQuantities.more eq2 = DarcyExtensiveQuantities.more eq"
    by (simp_all add: eq2_def eq1_def rawGradientLoop_closed cong: if_cong)
  have unfold: "calculateGradients elemCtx faceIdx timeIdx eq =
     (case (if EnableGravity elemCtx
            then forPhases (gravityStep elemCtx timeIdx scvf) [0..<n] eq2
            else Inr eq2) of
        Inl e \<Rightarrow> Inl e
      | Inr eq3 \<Rightarrow> Inr (fold (upstreamStep elemCtx timeIdx (normal scvf)) [0..<n]
           (eq3\<lparr>K := problem_intersectionIntrinsicPermeability elemCtx faceIdx timeIdx\<rparr>)))"
    by (simp add: calculateGradients_def Let_def eq2_def eq1_def scvf_def n_def cong: sum.case_cong)
  show ?thesis
  proof (cases "EnableGravity elemCtx")
    case False
    show ?thesis
      unfolding unfold upstreamLoop_closed using False
      apply simp
      apply (rule DarcyExtensiveQuantities.equality)
      apply (auto simp add: fun_eq_iff eq2_grad eq2_in eq2_ex eq2_rest G_def up_def down_def)
      done
  next
    case True
    have loop: "forPhases (gravityStep elemCtx timeIdx scvf) [0..<n] eq2 =
      Inr (eq2\<lparr>potentialGrad := (\<lambda>p. if p < n \<and> model_phaseIsConsidered elemCtx p
                  then vadd (potentialGrad eq2 p)
                    (hydrostaticGradient elemCtx timeIdx scvf (interiorDofIdx eq2) (exteriorDofIdx eq2) p)
                  else potentialGrad eq2 p)\<rparr>)"
      apply (rule correctionLoop_ok [where fin = "\<lambda>v. std_isfinite elemCtx (two_norm (std_sqrt elemCtx) v)"
          and F = "\<lambda>i e p. hydrostaticGradient elemCtx timeIdx scvf i e p"])
       apply (rule gravityStep_shape)
      using ok [OF True] True apply (simp add: G_def eq2_grad eq2_in eq2_ex)
      done
    show ?thesis
      unfolding unfold using True
      apply (simp add: loop upstreamLoop_closed)
      apply (rule DarcyExtensiveQuantities.equality)
      apply (auto simp add: fun_eq_iff eq2_grad eq2_in eq2_ex eq2_rest G_def up_def down_def)
      done
  qed
qed

lemma calculateGradients_failure:
  fixes elemCtx :: "('a::{zero,plus,minus,uminus,times,inverse,ord}, 'fs, 'pc) ElementContext"
    and faceIdx timeIdx :: nat
  defines "scvf \<equiv> stencil_interiorFace elemCtx timeIdx faceIdx"
  defines "G \<equiv> \<lambda>p. vadd (gradCalc_calculateGradient elemCtx faceIdx p)
             (hydrostaticGradient elemCtx timeIdx scvf (interiorIndex scvf) (exteriorIndex scvf) p)"
  assumes grav: "EnableGravity elemCtx"
    and bad: "q < numPhases elemCtx" "model_phaseIsConsidered elemCtx q"
      "\<not> std_isfinite elemCtx (two_norm (std_sqrt elemCtx) (G q))"
  shows "\<exists>q'\<le>q. model_phaseIsConsidered elemCtx q' \<and>
           \<not> std_isfinite elemCtx (two_norm (std_sqrt elemCtx) (G q')) \<and>
           calculateGradients elemCtx faceIdx timeIdx eq = Inl (NumericalProblem q')"
proof -
  define n where "n = numPhases elemCtx"
  define eq1 where "eq1 = eq\<lparr>interiorDofIdx := interiorIndex scvf, exteriorDofIdx := exteriorIndex scvf\<rparr>"
  define eq2 where "eq2 = fold (rawGradientStep elemCtx faceIdx) [0..<n] eq1"
  have eq2_grad: "potentialGrad eq2 = (\<lambda>p. if p < n \<and> model_phaseIsConsidered elemCtx p
              then gradCalc_calculateGradient elemCtx faceIdx p else potentialGrad eq p)"
    and eq2_in: "interiorDofIdx eq2 = interiorIndex scvf"
    and eq2_ex: "exteriorDofIdx eq2 = exteriorIndex scvf"
    by (simp_all add: eq2_def eq1_def rawGradientLoop_closed cong: if_cong)
  have unfold: "calculateGradients elemCtx faceIdx timeIdx eq =
     (case forPhases (gravityStep elemCtx timeIdx scvf) [0..<n] eq2 of
        Inl e \<Rightarrow> Inl e
      | Inr eq3 \<Rightarrow> Inr (fold (upstreamStep elemCtx timeIdx (normal scvf)) [0..<n]
           (eq3\<lparr>K := problem_intersectionIntrinsicPermeability elemCtx faceIdx timeIdx\<rparr>)))"
    using grav
    by (simp add: calculateGradients_def Let_def eq2_def eq1_def scvf_def n_def cong: sum.case_cong)
  have "\<exists>q'. q' \<le> q \<and> model_phaseIsConsidered elemCtx q' \<and>
           \<not> (\<lambda>v. std_isfinite elemCtx (two_norm (std_sqrt elemCtx) v))
               (vadd (potentialGrad eq2 q')
                  (hydrostaticGradient elemCtx timeIdx scvf (interiorDofIdx eq2) (exteriorDofIdx eq2) q')) \<and>
           (\<forall>k<q'. model_phaseIsConsidered elemCtx k \<longrightarrow>
              (\<lambda>v. std_isfinite elemCtx (two_norm (std_sqrt elemCtx) v))
               (vadd (potentialGrad eq2 k)
                  (hydrostaticGradient elemCtx timeIdx scvf (interiorDofIdx eq2) (exteriorDofIdx eq2) k))) \<and>
           forPhases (gravityStep elemCtx timeIdx scvf) [0..<n] eq2 = Inl (NumericalProblem q')"
    apply (rule correctionLoop_fail [where fin = "\<lambda>v. std_isfinite elemCtx (two_norm (std_sqrt elemCtx) v)"
          and F = "\<lambda>i e p. hydrostaticGradient elemCtx timeIdx scvf i e p"])
       apply (rule gravityStep_shape)
    using bad apply (simp_all add: G_def eq2_grad eq2_in eq2_ex n_def)
    done
  then obtain q' where q': "q' \<le> q" "model_phaseIsConsidered elemCtx q'"
     "\<not> std_isfinite elemCtx (two_norm (std_sqrt elemCtx)
               (vadd (potentialGrad eq2 q')
                  (hydrostaticGradient elemCtx timeIdx scvf (interiorDofIdx eq2) (exteriorDofIdx eq2) q')))"
     "forPhases (gravityStep elemCtx timeIdx scvf) [0..<n] eq2 = Inl (NumericalProblem q')"
    by blast
  have "q' < n" using q'(1) bad(1) by (simp add: n_def)
  then have "\<not> std_isfinite elemCtx (two_norm (std_sqrt elemCtx) (G q'))"
    using q'(2,3) by (simp add: G_def eq2_grad eq2_in eq2_ex)
  moreover have "calculateGradients elemCtx faceIdx timeIdx eq = Inl (NumericalProblem q')"
    by (simp add: unfold q'(4))
  ultimately show ?thesis using q'(1,2) by blast
qed

lemma calculateGradients_Inr:
  fixes elemCtx :: "('a::{zero,plus,minus,uminus,times,inverse,ord}, 'fs, 'pc) ElementContext"
    and faceIdx timeIdx :: nat
  defines "n \<equiv> numPhases elemCtx"
  defines "scvf \<equiv> stencil_interiorFace elemCtx timeIdx faceIdx"
  defines "G \<equiv> \<lambda>p. if EnableGravity elemCtx
      then vadd (gradCalc_calculateGradient elemCtx faceIdx p)
             (hydrostaticGradient elemCtx timeIdx scvf (interiorIndex scvf) (exteriorIndex scvf) p)
      else gradCalc_calculateGradient elemCtx faceIdx p"
  defines "up \<equiv> \<lambda>p. if 0 < projection (G p) (normal scvf)
                      then exteriorIndex scvf else interiorIndex scvf"
  defines "down \<equiv> \<lambda>p. if 0 < projection (G p) (normal scvf)
                      then interiorIndex scvf else exteriorIndex scvf"
  assumes res: "calculateGradients elemCtx faceIdx timeIdx eq = Inr r"
  shows "r = eq\<lparr>K := problem_intersectionIntrinsicPermeability elemCtx faceIdx timeIdx,
           interiorDofIdx := interiorIndex scvf,
           exteriorDofIdx := exteriorIndex scvf,
           upstreamDofIdx := (\<lambda>p. if p < n \<and> model_phaseIsConsidered elemCtx p
                                then up p else upstreamDofIdx eq p),
           downstreamDofIdx := (\<lambda>p. if p < n \<and> model_phaseIsConsidered elemCtx p
                                then down p else downstreamDofIdx eq p),
           mobility := (\<lambda>p. if p < n \<and> model_phaseIsConsidered elemCtx p
                                then intQuants_mobility elemCtx (up p) timeIdx p else mobility eq p),
           potentialGrad := (\<lambda>p. if p < n \<and> model_phaseIsConsidered elemCtx p
                                then G p else potentialGrad eq p)\<rparr>"
proof -
  have ok: "std_isfinite elemCtx (two_norm (std_sqrt elemCtx) (G q))"
    if "EnableGravity elemCtx" "q < n" "model_phaseIsConsidered elemCtx q" for q
  proof (rule ccontr)
    assume "\<not> std_isfinite elemCtx (two_norm (std_sqrt elemCtx) (G q))"
    then have "\<exists>q'\<le>q. model_phaseIsConsidered elemCtx q' \<and>
           \<not> std_isfinite elemCtx (two_norm (std_sqrt elemCtx)
               (vadd (gradCalc_calculateGradient elemCtx faceIdx q')
             (hydrostaticGradient elemCtx timeIdx scvf (interiorIndex scvf) (exteriorIndex scvf) q'))) \<and>
           calculateGradients elemCtx faceIdx timeIdx eq = Inl (NumericalProblem q')"
      using that unfolding scvf_def
      by (intro calculateGradients_failure) (simp_all add: G_def n_def scvf_def)
    with res show False by auto
  qed
  have "calculateGradients elemCtx faceIdx timeIdx eq = Inr (eq\<lparr>K := problem_intersectionIntrinsicPermeability elemCtx faceIdx timeIdx,
           interiorDofIdx := interiorIndex scvf,
           exteriorDofIdx := exteriorIndex scvf,
           upstreamDofIdx := (\<lambda>p. if p < n \<and> model_phaseIsConsidered elemCtx p
                                then up p else upstreamDofIdx eq p),
           downstreamDofIdx := (\<lambda>p. if p < n \<and> model_phaseIsConsidered elemCtx p
                                then down p else downstreamDofIdx eq p),
           mobility := (\<lambda>p. if p < n \<and> model_phaseIsConsidered elemCtx p
                                then intQuants_mobility elemCtx (up p) timeIdx p else mobility eq p),
           potentialGrad := (\<lambda>p. if p < n \<and> model_phaseIsConsidered elemCtx p
                                then G p else potentialGrad eq p)\<rparr>)"
    unfolding n_def scvf_def G_def up_def down_def
    apply (rule calculateGradients_success)
    using ok unfolding n_def scvf_def G_def by simp
  with res show ?thesis by simp
qed

lemma calculateBoundaryGradients_success:
  fixes elemCtx :: "('a::{zero,plus,minus,uminus,times,inverse,ord}, 'fs, 'pc) ElementContext"
    and faceIdx timeIdx :: nat and fluidState :: 'fs and paramCache :: 'pc
  defines "n \<equiv> numPhases elemCtx"
  defines "scvf \<equiv> stencil_boundaryFace elemCtx timeIdx faceIdx"
  defines "G \<equiv> \<lambda>p. if EnableGravity elemCtx
      then vadd (gradCalc_calculateBoundaryGradient elemCtx fluidState faceIdx p)
             (boundaryHydrostaticGradient elemCtx timeIdx scvf (interiorIndex scvf) p)
      else gradCalc_calculateBoundaryGradient elemCtx fluidState faceIdx p"
  defines "up \<equiv> \<lambda>p. if 0 < projection (G p) (normal scvf)
                      then - 1 else interiorIndex scvf"
  defines "down \<equiv> \<lambda>p. if 0 < projection (G p) (normal scvf)
                      then interiorIndex scvf else - 1"
  assumes ok: "EnableGravity elemCtx \<Longrightarrow> (\<And>q. q < n \<Longrightarrow> model_phaseIsConsidered elemCtx q \<Longrightarrow>
                 std_isfinite elemCtx (two_norm (std_sqrt elemCtx) (G q)))"
  shows "calculateBoundaryGradients elemCtx faceIdx timeIdx fluidState paramCache eq =
     Inr (eq\<lparr>K := intQuants_intrinsicPermeability elemCtx (interiorIndex scvf) timeIdx,
           interiorDofIdx := interiorIndex scvf,
           exteriorDofIdx := - 1,
           upstreamDofIdx := (\<lambda>p. if p < n \<and> model_phaseIsConsidered elemCtx p
                                then up p else upstreamDofIdx eq p),
           downstreamDofIdx := (\<lambda>p. if p < n \<and> model_phaseIsConsidered elemCtx p
                                then down p else downstreamDofIdx eq p),
           mobility := (\<lambda>p. if p < n \<and> model_phaseIsConsidered elemCtx p
                then (if sint (up p) < 0
                      then MaterialLaw_relativePermeabilities elemCtx (interiorIndex scvf) timeIdx fluidState p
                             / FluidSystem_viscosity elemCtx fluidState paramCache p
                      else intQuants_mobility elemCtx (interiorIndex scvf) timeIdx p)
                else mobility eq p),
           potentialGrad := (\<lambda>p. if p < n \<and> model_phaseIsConsidered elemCtx p
                                then G p else potentialGrad eq p)\<rparr>)"
proof -
  define eq1 where "eq1 = fold (rawBoundaryGradientStep elemCtx fluidState faceIdx) [0..<n] eq"
  define eq3 where "eq3 = eq1\<lparr>interiorDofIdx := interiorIndex scvf, exteriorDofIdx := - 1,
     K := intQuants_intrinsicPermeability elemCtx (interiorIndex scvf) timeIdx\<rparr>"
  have eq3_grad: "potentialGrad eq3 = (\<lambda>p. if p < n \<and> model_phaseIsConsidered elemCtx p
              then gradCalc_calculateBoundaryGradient elemCtx fluidState faceIdx p
              else potentialGrad eq p)"
    and eq3_in: "interiorDofIdx eq3 = interiorIndex scvf"
    and eq3_ex: "exteriorDofIdx eq3 = - 1"
    and eq3_rest: "K eq3 = intQuants_intrinsicPermeability elemCtx (interiorIndex scvf) timeIdx"
      "upstreamDofIdx eq3 = upstreamDofIdx eq"
      "downstreamDofIdx eq3 = downstreamDofIdx eq" "mobility eq3 = mobility eq"
      "filterVelocity eq3 = filterVelocity eq" "volumeFlux eq3 = volumeFlux eq"
      "DarcyExtensiveQuantities.more eq3 = DarcyExtensiveQuantities.more eq"
    by (simp_all add: eq3_def eq1_def rawBoundaryGradientLoop_closed cong: if_cong)
  have unfold: "calculateBoundaryGradients elemCtx faceIdx timeIdx fluidState paramCache eq =
     (case (if EnableGravity elemCtx
            then forPhases (boundaryGravityStep elemCtx timeIdx scvf) [0..<n] eq3
            else Inr eq3) of
        Inl e \<Rightarrow> Inl e
      | Inr eq4 \<Rightarrow> Inr (fold (boundaryUpstreamStep elemCtx timeIdx fluidState paramCache (normal scvf)
             (MaterialLaw_relativePermeabilities elemCtx (interiorDofIdx eq4) timeIdx fluidState))
           [0..<n] eq4))"
    by (simp add: calculateBoundaryGradients_def Let_def eq3_def eq1_def scvf_def n_def
        cong: sum.case_cong)
  show ?thesis
  proof (cases "EnableGravity elemCtx")
    case False
    show ?thesis
      unfolding unfold boundaryUpstreamLoop_closed using False
      apply simp
      apply (rule DarcyExtensiveQuantities.equality)
      apply (auto simp add: fun_eq_iff eq3_grad eq3_in eq3_ex eq3_rest G_def up_def down_def)
      done
  next
    case True
    have loop: "forPhases (boundaryGravityStep elemCtx timeIdx scvf) [0..<n] eq3 =
      Inr (eq3\<lparr>potentialGrad := (\<lambda>p. if p < n \<and> model_phaseIsConsidered elemCtx p
                  then vadd (potentialGrad eq3 p)
                    ((\<lambda>i (e::dofIdx). boundaryHydrostaticGradient elemCtx timeIdx scvf i)
                        (interiorDofIdx eq3) (exteriorDofIdx eq3) p)
                  else potentialGrad eq3 p)\<rparr>)"
      apply (rule correctionLoop_ok [where fin = "\<lambda>v. std_isfinite elemCtx (two_norm (std_sqrt elemCtx) v)"
          and F = "\<lambda>i (e::dofIdx). boundaryHydrostaticGradient elemCtx timeIdx scvf i"])
       apply (rule boundaryGravityStep_shape)
      using ok [OF True] True apply (simp add: G_def eq3_grad eq3_in eq3_ex)
      done
    show ?thesis
      unfolding unfold using True
      apply (simp add: loop boundaryUpstreamLoop_closed)
      apply (rule DarcyExtensiveQuantities.equality)
      apply (auto simp add: fun_eq_iff eq3_grad eq3_in eq3_ex eq3_rest G_def up_def down_def)
      done
  qed
qed

lemma calculateBoundaryGradients_failure:
  fixes elemCtx :: "('a::{zero,plus,minus,uminus,times,inverse,ord}, 'fs, 'pc) ElementContext"
    and faceIdx timeIdx :: nat and fluidState :: 'fs and paramCache :: 'pc
  defines "scvf \<equiv> stencil_boundaryFace elemCtx timeIdx faceIdx"
  defines "G \<equiv> \<lambda>p. vadd (gradCalc_calculateBoundaryGradient elemCtx fluidState faceIdx p)
             (boundaryHydrostaticGradient elemCtx timeIdx scvf (interiorIndex scvf) p)"
  assumes grav: "EnableGravity elemCtx"
    and bad: "q < numPhases elemCtx" "model_phaseIsConsidered elemCtx q"
      "\<not> std_isfinite elemCtx (two_norm (std_sqrt elemCtx) (G q))"
  shows "\<exists>q'\<le>q. model_phaseIsConsidered elemCtx q' \<and>
           \<not> std_isfinite elemCtx (two_norm (std_sqrt elemCtx) (G q')) \<and>
           calculateBoundaryGradients elemCtx faceIdx timeIdx fluidState paramCache eq
             = Inl (NumericalProblem q')"
proof -
  define n where "n = numPhases elemCtx"
  define eq1 where "eq1 = fold (rawBoundaryGradientStep elemCtx fluidState faceIdx) [0..<n] eq"
  define eq3 where "eq3 = eq1\<lparr>interiorDofIdx := interiorIndex scvf, exteriorDofIdx := - 1,
     K := intQuants_intrinsicPermeability elemCtx (interiorIndex scvf) timeIdx\<rparr>"
  have eq3_grad: "potentialGrad eq3 = (\<lambda>p. if p < n \<and> model_phaseIsConsidered elemCtx p
              then gradCalc_calculateBoundaryGradient elemCtx fluidState faceIdx p
              else potentialGrad eq p)"
    and eq3_in: "interiorDofIdx eq3 = interiorIndex scvf"
    and eq3_ex: "exteriorDofIdx eq3 = - 1"
    by (simp_all add: eq3_def eq1_def rawBoundaryGradientLoop_closed cong: if_cong)
  have unfold: "calculateBoundaryGradients elemCtx faceIdx timeIdx fluidState paramCache eq =
     (case forPhases (boundaryGravityStep elemCtx timeIdx scvf) [0..<n] eq3 of
        Inl e \<Rightarrow> Inl e
      | Inr eq4 \<Rightarrow> Inr (fold (boundaryUpstreamStep elemCtx timeIdx fluidState paramCache (normal scvf)
             (MaterialLaw_relativePermeabilities elemCtx (interiorDofIdx eq4) timeIdx fluidState))
           [0..<n] eq4))"
    using grav
    by (simp add: calculateBoundaryGradients_def Let_def eq3_def eq1_def scvf_def n_def
        cong: sum.case_cong)
  have "\<exists>q'. q' \<le> q \<and> model_phaseIsConsidered elemCtx q' \<and>
           \<not> (\<lambda>v. std_isfinite elemCtx (two_norm (std_sqrt elemCtx) v))
               (vadd (potentialGrad eq3 q')
                  ((\<lambda>i (e::dofIdx). boundaryHydrostaticGradient elemCtx timeIdx scvf i)
                     (interiorDofIdx eq3) (exteriorDofIdx eq3) q')) \<and>
           (\<forall>k<q'. model_phaseIsConsidered elemCtx k \<longrightarrow>
              (\<lambda>v. std_isfinite elemCtx (two_norm (std_sqrt elemCtx) v))
               (vadd (potentialGrad eq3 k)
                  ((\<lambda>i (e::dofIdx). boundaryHydrostaticGradient elemCtx timeIdx scvf i)
                     (interiorDofIdx eq3) (exteriorDofIdx eq3) k))) \<and>
           forPhases (boundaryGravityStep elemCtx timeIdx scvf) [0..<n] eq3 = Inl (NumericalProblem q')"
    apply (rule correctionLoop_fail [where fin = "\<lambda>v. std_isfinite elemCtx (two_norm (std_sqrt elemCtx) v)"
          and F = "\<lambda>i (e::dofIdx). boundaryHydrostaticGradient elemCtx timeIdx scvf i"])
       apply (rule boundaryGravityStep_shape)
    using bad apply (simp_all add: G_def eq3_grad eq3_in eq3_ex n_def)
    done
  then obtain q' where q': "q' \<le> q" "model_phaseIsConsidered elemCtx q'"
     "\<not> std_isfinite elemCtx (two_norm (std_sqrt elemCtx)
               (vadd (potentialGrad eq3 q')
                  (boundaryHydrostaticGradient elemCtx timeIdx scvf (interiorDofIdx eq3) q')))"
     "forPhases (boundaryGravityStep elemCtx timeIdx scvf) [0..<n] eq3 = Inl (NumericalProblem q')"
    by auto
  have "q' < n" using q'(1) bad(1) by (simp add: n_def)
  then have "\<not> std_isfinite elemCtx (two_norm (std_sqrt elemCtx) (G q'))"
    using q'(2,3) by (simp add: G_def eq3_grad eq3_in eq3_ex)
  moreover have "calculateBoundaryGradients elemCtx faceIdx timeIdx fluidState paramCache eq
       = Inl (NumericalProblem q')"
    by (simp add: unfold q'(4))
  ultimately show ?thesis using q'(1,2) by blast
qed

lemma calculateBoundaryGradients_Inr:
  fixes elemCtx :: "('a::{zero,plus,minus,uminus,times,inverse,ord}, 'fs, 'pc) ElementContext"
    and faceIdx timeIdx :: nat and fluidState :: 'fs and paramCache :: 'pc
  defines "n \<equiv> numPhases elemCtx"
  defines "scvf \<equiv> stencil_boundaryFace elemCtx timeIdx faceIdx"
  defines "G \<equiv> \<lambda>p. if EnableGravity elemCtx
      then vadd (gradCalc_calculateBoundaryGradient elemCtx fluidState faceIdx p)
             (boundaryHydrostaticGradient elemCtx timeIdx scvf (interiorIndex scvf) p)
      else gradCalc_calculateBoundaryGradient elemCtx fluidState faceIdx p"
  defines "up \<equiv> \<lambda>p. if 0 < projection (G p) (normal scvf)
                      then - 1 else interiorIndex scvf"
  defines "down \<equiv> \<lambda>p. if 0 < projection (G p) (normal scvf)
                      then interiorIndex scvf else - 1"
  assumes res: "calculateBoundaryGradients elemCtx faceIdx timeIdx fluidState paramCache eq = Inr r"
  shows "r = eq\<lparr>K := intQuants_intrinsicPermeability elemCtx (interiorIndex scvf) timeIdx,
           interiorDofIdx := interiorIndex scvf,
           exteriorDofIdx := - 1,
           upstreamDofIdx := (\<lambda>p. if p < n \<and> model_phaseIsConsidered elemCtx p
                                then up p else upstreamDofIdx eq p),
           downstreamDofIdx := (\<lambda>p. if p < n \<and> model_phaseIsConsidered elemCtx p
                                then down p else downstreamDofIdx eq p),
           mobility := (\<lambda>p. if p < n \<and> model_phaseIsConsidered elemCtx p
                then (if sint (up p) < 0
                      then MaterialLaw_relativePermeabilities elemCtx (interiorIndex scvf) timeIdx fluidState p
                             / FluidSystem_viscosity elemCtx fluidState paramCache p
                      else intQuants_mobility elemCtx (interiorIndex scvf) timeIdx p)
                else mobility eq p),
           potentialGrad := (\<lambda>p. if p < n \<and> model_phaseIsConsidered elemCtx p
                                then G p else potentialGrad eq p)\<rparr>"
proof -
  have ok: "std_isfinite elemCtx (two_norm (std_sqrt elemCtx) (G q))"
    if "EnableGravity elemCtx" "q < n" "model_phaseIsConsidered elemCtx q" for q
  proof (rule ccontr)
    assume "\<not> std_isfinite elemCtx (two_norm (std_sqrt elemCtx) (G q))"
    then have "\<exists>q'\<le>q. model_phaseIsConsidered elemCtx q' \<and>
           \<not> std_isfinite elemCtx (two_norm (std_sqrt elemCtx)
               (vadd (gradCalc_calculateBoundaryGradient elemCtx fluidState faceIdx q')
             (boundaryHydrostaticGradient elemCtx timeIdx scvf (interiorIndex scvf) q'))) \<and>
           calculateBoundaryGradients elemCtx faceIdx timeIdx fluidState paramCache eq
              = Inl (NumericalProblem q')"
      using that unfolding scvf_def
      by (intro calculateBoundaryGradients_failure) (simp_all add: G_def n_def scvf_def)
    with res show False by auto
  qed
  have "calculateBoundaryGradients elemCtx faceIdx timeIdx fluidState paramCache eq =
     Inr (eq\<lparr>K := intQuants_intrinsicPermeability elemCtx (interiorIndex scvf) timeIdx,
           interiorDofIdx := interiorIndex scvf,
           exteriorDofIdx := - 1,
           upstreamDofIdx := (\<lambda>p. if p < n \<and> model_phaseIsConsidered elemCtx p
                                then up p else upstreamDofIdx eq p),
           downstreamDofIdx := (\<lambda>p. if p < n \<and> model_phaseIsConsidered elemCtx p
                                then down p else downstreamDofIdx eq p),
           mobility := (\<lambda>p. if p < n \<and> model_phaseIsConsidered elemCtx p
                then (if sint (up p) < 0
                      then MaterialLaw_relativePermeabilities elemCtx (interiorIndex scvf) timeIdx fluidState p
                             / FluidSystem_viscosity elemCtx fluidState paramCache p
                      else intQuants_mobility elemCtx (interiorIndex scvf) timeIdx p)
                else mobility eq p),
           potentialGrad := (\<lambda>p. if p < n \<and> model_phaseIsConsidered elemCtx p
                                then G p else potentialGrad eq p)\<rparr>)"
    unfolding n_def scvf_def G_def up_def down_def
    apply (rule calculateBoundaryGradients_success)
    using ok unfolding n_def scvf_def G_def by simp
  with res show ?thesis by simp
qed

section \<open>What a successful gradient stage leaves for a considered phase\<close>

lemma calculateGradients_fields:
  fixes elemCtx :: "('a::{zero,plus,minus,uminus,times,inverse,ord}, 'fs, 'pc) ElementContext"
  assumes res: "calculateGradients elemCtx faceIdx timeIdx eq = Inr r"
    and p: "phaseIdx < numPhases elemCtx" "model_phaseIsConsidered elemCtx phaseIdx"
  shows "K r = problem_intersectionIntrinsicPermeability elemCtx faceIdx timeIdx"
    and "interiorDofIdx r = interiorIndex (stencil_interiorFace elemCtx timeIdx faceIdx)"
    and "exteriorDofIdx r = exteriorIndex (stencil_interiorFace elemCtx timeIdx faceIdx)"
    and "potentialGrad r phaseIdx =
          (if EnableGravity elemCtx
           then vadd (gradCalc_calculateGradient elemCtx faceIdx phaseIdx)
                  (hydrostaticGradient elemCtx timeIdx (stencil_interiorFace elemCtx timeIdx faceIdx)
                     (interiorIndex (stencil_interiorFace elemCtx timeIdx faceIdx))
                     (exteriorIndex (stencil_interiorFace elemCtx timeIdx faceIdx)) phaseIdx)
           else gradCalc_calculateGradient elemCtx faceIdx phaseIdx)"
    and "upstreamDofIdx r phaseIdx =
          (if 0 < projection (potentialGrad r phaseIdx)
                    (normal (stencil_interiorFace elemCtx timeIdx faceIdx))
           then exteriorDofIdx r else interiorDofIdx r)"
    and "downstreamDofIdx r phaseIdx =
          (if 0 < projection (potentialGrad r phaseIdx)
                    (normal (stencil_interiorFace elemCtx timeIdx faceIdx))
           then interiorDofIdx r else exteriorDofIdx r)"
    and "mobility r phaseIdx = intQuants_mobility elemCtx (upstreamDofIdx r phaseIdx) timeIdx phaseIdx"
proof -
  note r = calculateGradients_Inr [OF res]
  show "K r = problem_intersectionIntrinsicPermeability elemCtx faceIdx timeIdx"
    by (subst r) simp
  show i: "interiorDofIdx r = interiorIndex (stencil_interiorFace elemCtx timeIdx faceIdx)"
    by (subst r) simp
  show e: "exteriorDofIdx r = exteriorIndex (stencil_interiorFace elemCtx timeIdx faceIdx)"
    by (subst r) simp
  show g: "potentialGrad r phaseIdx =
          (if EnableGravity elemCtx
           then vadd (gradCalc_calculateGradient elemCtx faceIdx phaseIdx)
                  (hydrostaticGradient elemCtx timeIdx (stencil_interiorFace elemCtx timeIdx faceIdx)
                     (interiorIndex (stencil_interiorFace elemCtx timeIdx faceIdx))
                     (exteriorIndex (stencil_interiorFace elemCtx timeIdx faceIdx)) phaseIdx)
           else gradCalc_calculateGradient elemCtx faceIdx phaseIdx)"
    using p by (subst r) simp
  show u: "upstreamDofIdx r phaseIdx =
          (if 0 < projection (potentialGrad r phaseIdx)
                    (normal (stencil_interiorFace elemCtx timeIdx faceIdx))
           then exteriorDofIdx r else interiorDofIdx r)"
    unfolding g i e using p by (subst r) simp
  show "downstreamDofIdx r phaseIdx =
          (if 0 < projection (potentialGrad r phaseIdx)
                    (normal (stencil_interiorFace elemCtx timeIdx faceIdx))
           then interiorDofIdx r else exteriorDofIdx r)"
    unfolding g i e using p by (subst r) simp
  show "mobility r phaseIdx = intQuants_mobility elemCtx (upstreamDofIdx r phaseIdx) timeIdx phaseIdx"
    unfolding u g i e using p by (subst r) simp
qed

lemma calculateBoundaryGradients_fields:
  fixes elemCtx :: "('a::{zero,plus,minus,uminus,times,inverse,ord}, 'fs, 'pc) ElementContext"
  assumes res: "calculateBoundaryGradients elemCtx faceIdx timeIdx fluidState paramCache eq = Inr r"
    and p: "phaseIdx < numPhases elemCtx" "model_phaseIsConsidered elemCtx phaseIdx"
  shows "K r = intQuants_intrinsicPermeability elemCtx
                 (interiorIndex (stencil_boundaryFace elemCtx timeIdx faceIdx)) timeIdx"
    and "interiorDofIdx r = interiorIndex (stencil_boundaryFace elemCtx timeIdx faceIdx)"
    and "exteriorDofIdx r = - 1"
    and "potentialGrad r phaseIdx =
          (if EnableGravity elemCtx
           then vadd (gradCalc_calculateBoundaryGradient elemCtx fluidState faceIdx phaseIdx)
                  (boundaryHydrostaticGradient elemCtx timeIdx (stencil_boundaryFace elemCtx timeIdx faceIdx)
                     (interiorIndex (stencil_boundaryFace elemCtx timeIdx faceIdx)) phaseIdx)
           else gradCalc_calculateBoundaryGradient elemCtx fluidState faceIdx phaseIdx)"
    and "upstreamDofIdx r phaseIdx =
          (if 0 < projection (potentialGrad r phaseIdx)
                    (normal (stencil_boundaryFace elemCtx timeIdx faceIdx))
           then exteriorDofIdx r else interiorDofIdx r)"
    and "downstreamDofIdx r phaseIdx =
          (if 0 < projection (potentialGrad r phaseIdx)
                    (normal (stencil_boundaryFace elemCtx timeIdx faceIdx))
           then interiorDofIdx r else exteriorDofIdx r)"
    and "mobility r phaseIdx =
          (if sint (upstreamDofIdx r phaseIdx) < 0
           then MaterialLaw_relativePermeabilities elemCtx (interiorDofIdx r) timeIdx fluidState phaseIdx
                  / FluidSystem_viscosity elemCtx fluidState paramCache phaseIdx
           else intQuants_mobility elemCtx (interiorDofIdx r) timeIdx phaseIdx)"
proof -
  note r = calculateBoundaryGradients_Inr [OF res]
  show "K r = intQuants_intrinsicPermeability elemCtx
                 (interiorIndex (stencil_boundaryFace elemCtx timeIdx faceIdx)) timeIdx"
    by (subst r) simp
  show i: "interiorDofIdx r = interiorIndex (stencil_boundaryFace elemCtx timeIdx faceIdx)"
    by (subst r) simp
  show e: "exteriorDofIdx r = - 1"
    by (subst r) simp
  show g: "potentialGrad r phaseIdx =
          (if EnableGravity elemCtx
           then vadd (gradCalc_calculateBoundaryGradient elemCtx fluidState faceIdx phaseIdx)
                  (boundaryHydrostaticGradient elemCtx timeIdx (stencil_boundaryFace elemCtx timeIdx faceIdx)
                     (interiorIndex (stencil_boundaryFace elemCtx timeIdx faceIdx)) phaseIdx)
           else gradCalc_calculateBoundaryGradient elemCtx fluidState faceIdx phaseIdx)"
    using p by (subst r) simp
  show u: "upstreamDofIdx r phaseIdx =
          (if 0 < projection (potentialGrad r phaseIdx)
                    (normal (stencil_boundaryFace elemCtx timeIdx faceIdx))
           then exteriorDofIdx r else interiorDofIdx r)"
    unfolding g i e using p by (subst r) simp
  show "downstreamDofIdx r phaseIdx =
          (if 0 < projection (potentialGrad r phaseIdx)
                    (normal (stencil_boundaryFace elemCtx timeIdx faceIdx))
           then interiorDofIdx r else exteriorDofIdx r)"
    unfolding g i e using p by (subst r) simp
  show "mobility r phaseIdx =
          (if sint (upstreamDofIdx r phaseIdx) < 0
           then MaterialLaw_relativePermeabilities elemCtx (interiorDofIdx r) timeIdx fluidState phaseIdx
                  / FluidSystem_viscosity elemCtx fluidState paramCache phaseIdx
           else intQuants_mobility elemCtx (interiorDofIdx r) timeIdx phaseIdx)"
    unfolding u g i e using p by (subst r) simp
qed

section \<open>The face evaluation as a function of the element context\<close>

text \<open>
  Without gravity the gradient stages have no throw to reach. Whether the interior
  gradient stage throws does not depend on the record it starts from, and a second
  evaluation of a face on the record the first one left changes
  nothing: the two stages read the element context only.
\<close>

lemma gradient_stages_without_gravity_return:
  fixes elemCtx :: "('a::{zero,plus,minus,uminus,times,inverse,ord}, 'fs, 'pc) ElementContext"
  assumes "\<not> EnableGravity elemCtx"
  shows "(\<exists>r. calculateGradients elemCtx faceIdx timeIdx eq = Inr r)
       \<and> (\<exists>r. calculateBoundaryGradients elemCtx faceIdx timeIdx fluidState paramCache eq = Inr r)"
proof
  show "\<exists>r. calculateGradients elemCtx faceIdx timeIdx eq = Inr r"
    apply (rule exI)
    apply (rule calculateGradients_success)
    using assms apply simp
    done
  show "\<exists>r. calculateBoundaryGradients elemCtx faceIdx timeIdx fluidState paramCache eq = Inr r"
    apply (rule exI)
    apply (rule calculateBoundaryGradients_success)
    using assms apply simp
    done
qed

lemma calculateGradients_independent_of_record:
  fixes elemCtx :: "('a::{zero,plus,minus,uminus,times,inverse,ord}, 'fs, 'pc) ElementContext"
  assumes "calculateGradients elemCtx faceIdx timeIdx eq = Inr r"
  shows "\<exists>r'. calculateGradients elemCtx faceIdx timeIdx eq' = Inr r'"
proof -
  have ok: "std_isfinite elemCtx (two_norm (std_sqrt elemCtx)
       (vadd (gradCalc_calculateGradient elemCtx faceIdx q)
          (hydrostaticGradient elemCtx timeIdx (stencil_interiorFace elemCtx timeIdx faceIdx)
             (interiorIndex (stencil_interiorFace elemCtx timeIdx faceIdx))
             (exteriorIndex (stencil_interiorFace elemCtx timeIdx faceIdx)) q)))"
    if "EnableGravity elemCtx" "q < numPhases elemCtx" "model_phaseIsConsidered elemCtx q" for q
  proof (rule ccontr)
    assume bad: "\<not> ?thesis"
    from calculateGradients_failure [OF that bad, of eq] assms show False by auto
  qed
  show ?thesis
    apply (rule exI)
    apply (rule calculateGradients_success)
    using ok apply simp
    done
qed

lemma gradientsThenFluxes_idempotent:
  fixes elemCtx :: "('a::{zero,plus,minus,uminus,times,inverse,ord}, 'fs, 'pc) ElementContext"
  assumes "gradientsThenFluxes elemCtx faceIdx timeIdx eq = Inr r"
  shows "gradientsThenFluxes elemCtx faceIdx timeIdx r = Inr r"
proof -
  from assms obtain g where g: "calculateGradients elemCtx faceIdx timeIdx eq = Inr g"
    and r: "r = calculateFluxes elemCtx faceIdx timeIdx g"
    by (auto simp add: gradientsThenFluxes_def split: sum.splits)
  from calculateGradients_independent_of_record [OF g, of r]
  obtain g' where g': "calculateGradients elemCtx faceIdx timeIdx r = Inr g'" by blast
  note cg = calculateGradients_Inr [OF g]
  note cg' = calculateGradients_Inr [OF g']
  have rf: "K r = K g" "interiorDofIdx r = interiorDofIdx g" "exteriorDofIdx r = exteriorDofIdx g"
    "upstreamDofIdx r = upstreamDofIdx g" "downstreamDofIdx r = downstreamDofIdx g"
    "mobility r = mobility g" "potentialGrad r = potentialGrad g"
    "DarcyExtensiveQuantities.more r = DarcyExtensiveQuantities.more g"
    by (simp_all add: r calculateFluxes_def Let_def fluxLoop_closed)
  have same: "g' = g\<lparr>filterVelocity := filterVelocity r, volumeFlux := volumeFlux r\<rparr>"
  proof (rule DarcyExtensiveQuantities.equality)
    show "K g' = K (g\<lparr>filterVelocity := filterVelocity r, volumeFlux := volumeFlux r\<rparr>)"
      using arg_cong [where f = K, OF cg] arg_cong [where f = K, OF cg'] by simp
    show "interiorDofIdx g' = interiorDofIdx (g\<lparr>filterVelocity := filterVelocity r, volumeFlux := volumeFlux r\<rparr>)"
      using arg_cong [where f = interiorDofIdx, OF cg] arg_cong [where f = interiorDofIdx, OF cg']
      by simp
    show "exteriorDofIdx g' = exteriorDofIdx (g\<lparr>filterVelocity := filterVelocity r, volumeFlux := volumeFlux r\<rparr>)"
      using arg_cong [where f = exteriorDofIdx, OF cg] arg_cong [where f = exteriorDofIdx, OF cg']
      by simp
    show "upstreamDofIdx g' = upstreamDofIdx (g\<lparr>filterVelocity := filterVelocity r, volumeFlux := volumeFlux r\<rparr>)"
      using arg_cong [where f = upstreamDofIdx, OF cg] arg_cong [where f = upstreamDofIdx, OF cg']
      by (auto simp add: rf fun_eq_iff)
    show "downstreamDofIdx g' = downstreamDofIdx (g\<lparr>filterVelocity := filterVelocity r, volumeFlux := volumeFlux r\<rparr>)"
      using arg_cong [where f = downstreamDofIdx, OF cg] arg_cong [where f = downstreamDofIdx, OF cg']
      by (auto simp add: rf fun_eq_iff)
    show "mobility g' = mobility (g\<lparr>filterVelocity := filterVelocity r, volumeFlux := volumeFlux r\<rparr>)"
      using arg_cong [where f = mobility, OF cg] arg_cong [where f = mobility, OF cg']
      by (auto simp add: rf fun_eq_iff)
    show "potentialGrad g' = potentialGrad (g\<lparr>filterVelocity := filterVelocity r, volumeFlux := volumeFlux r\<rparr>)"
      using arg_cong [where f = potentialGrad, OF cg] arg_cong [where f = potentialGrad, OF cg']
      by (auto simp add: rf fun_eq_iff)
    show "filterVelocity g' = filterVelocity (g\<lparr>filterVelocity := filterVelocity r, volumeFlux := volumeFlux r\<rparr>)"
      using arg_cong [where f = filterVelocity, OF cg'] by simp
    show "volumeFlux g' = volumeFlux (g\<lparr>filterVelocity := filterVelocity r, volumeFlux := volumeFlux r\<rparr>)"
      using arg_cong [where f = volumeFlux, OF cg'] by simp
    show "DarcyExtensiveQuantities.more g' = DarcyExtensiveQuantities.more (g\<lparr>filterVelocity := filterVelocity r, volumeFlux := volumeFlux r\<rparr>)"
      using arg_cong [where f = DarcyExtensiveQuantities.more, OF cg']
      by (simp add: rf)
  qed
  have "calculateFluxes elemCtx faceIdx timeIdx g' = r"
    unfolding same
    apply (subst (2) r)
    apply (simp add: calculateFluxes_def Let_def fluxLoop_closed)
    apply (rule DarcyExtensiveQuantities.equality)
    apply (auto simp add: fun_eq_iff r calculateFluxes_def Let_def fluxLoop_closed)
    done
  then show ?thesis
    by (simp add: gradientsThenFluxes_def g')
qed

section \<open>Vector arithmetic\<close>

lemma vscale_neg_comm:
  fixes m :: "'a::comm_ring"
  shows "vscale v (- m) = map (\<lambda>y. - (m * y)) v"
  by (simp add: vscale_def mult.commute)

lemma foldl_zero_right:
  fixes acc :: "'a::semiring_0"
  assumes "\<forall>b\<in>set y. b = 0"
  shows "foldl (\<lambda>result (a, b). result + a * b) acc (zip x y) = acc"
  using assms
proof (induction x arbitrary: y acc)
  case Nil
  show ?case by simp
next
  case (Cons a x)
  show ?case
  proof (cases y)
    case Nil
    then show ?thesis by simp
  next
    case (Cons b y')
    with Cons.prems have "b = 0" "\<forall>c\<in>set y'. c = 0" by simp_all
    with Cons.IH [where y = y' and acc = acc] Cons show ?thesis by simp
  qed
qed

lemma foldl_zero_left:
  fixes acc :: "'a::semiring_0"
  assumes "\<forall>a\<in>set x. a = 0"
  shows "foldl (\<lambda>result (a, b). result + a * b) acc (zip x y) = acc"
  using assms
proof (induction x arbitrary: y acc)
  case Nil
  show ?case by simp
next
  case (Cons a x)
  show ?case
  proof (cases y)
    case Nil
    then show ?thesis by simp
  next
    case (Cons b y')
    from Cons.prems have "a = 0" "\<forall>c\<in>set x. c = 0" by simp_all
    with Cons.IH [where y = y' and acc = acc] Cons show ?thesis by simp
  qed
qed

lemma flux_of_zero_gradient:
  fixes m :: "'a::ring"
  shows "dot (vscale (mv A (replicate d 0)) (- m)) nrm = 0"
proof -
  have "\<forall>e\<in>set (mv A (replicate d 0)). e = 0"
    by (simp add: mv_def dot_def foldl_zero_right)
  then have "\<forall>e\<in>set (vscale (mv A (replicate d 0)) (- m)). e = 0"
    by (auto simp add: vscale_def)
  then show ?thesis
    by (simp add: dot_def foldl_zero_left)
qed

section \<open>The example evaluated\<close>

lemma upt2: "[0..<2] = [0, Suc 0]"
  by (simp add: upt_rec)

lemma exCtx_interior:
  "calculateGradients exCtx 0 0 exEq = Inr exInterior"
  by (simp add: exInterior_def calculateGradients_def exCtx_def exFace_def upt2 rawGradientStep_def
      gravityStep_def upstreamStep_def hydrostaticGradient_def vsub_def vscale_def vadd_def dot_def
      two_norm2_def two_norm_def projection_def Let_def exEq_def)

lemma exCtx_boundary:
  "calculateBoundaryGradients exCtx 0 0 () () exEq = Inr exBoundary"
  by (simp add: exBoundary_def calculateBoundaryGradients_def exCtx_def exFace_def upt2
      rawBoundaryGradientStep_def boundaryGravityStep_def boundaryUpstreamStep_def
      boundaryHydrostaticGradient_def vsub_def vscale_def vadd_def dot_def two_norm2_def two_norm_def
      projection_def Let_def exEq_def)

lemma exTieCtx_interior:
  "calculateGradients exTieCtx 0 0 exEq = Inr exTieInterior"
  by (simp add: exTieInterior_def calculateGradients_def exTieCtx_def exCtx_def exFace_def upt2 rawGradientStep_def
      gravityStep_def upstreamStep_def hydrostaticGradient_def vsub_def vscale_def vadd_def dot_def
      two_norm2_def two_norm_def projection_def Let_def exEq_def)

lemma exInflowCtx_interior:
  "calculateGradients exInflowCtx 0 0 exEq = Inr exInflowInterior"
  by (simp add: exInflowInterior_def calculateGradients_def exInflowCtx_def exCtx_def exFace_def upt2 rawGradientStep_def
      gravityStep_def upstreamStep_def hydrostaticGradient_def vsub_def vscale_def vadd_def dot_def
      two_norm2_def two_norm_def projection_def Let_def exEq_def)

lemma exInflowCtx_boundary:
  "calculateBoundaryGradients exInflowCtx 0 0 () () exEq = Inr exInflowBoundary"
  by (simp add: exInflowBoundary_def calculateBoundaryGradients_def exInflowCtx_def exCtx_def exFace_def upt2
      rawBoundaryGradientStep_def boundaryGravityStep_def boundaryUpstreamStep_def
      boundaryHydrostaticGradient_def vsub_def vscale_def vadd_def dot_def two_norm2_def two_norm_def
      projection_def Let_def exEq_def)

lemma exOutflowCtx_boundary:
  "calculateBoundaryGradients exOutflowCtx 0 0 () () exEq = Inr exOutflowBoundary"
  by (simp add: exOutflowBoundary_def calculateBoundaryGradients_def exOutflowCtx_def exInflowCtx_def exCtx_def exFace_def upt2
      rawBoundaryGradientStep_def boundaryGravityStep_def boundaryUpstreamStep_def
      boundaryHydrostaticGradient_def vsub_def vscale_def vadd_def dot_def two_norm2_def two_norm_def
      projection_def Let_def exEq_def)

section \<open>The hydrostatic term when gravity is uniform\<close>

lemma mean_of_equal: "map2 (\<lambda>a b. (a + b) / 2) g g = (g :: real list)"
  by (induction g) simp_all

lemma hydrostaticGradient_uniform_gravity:
  fixes elemCtx :: "(real, 'fs, 'pc) ElementContext"
  assumes "problem_gravity elemCtx (interiorIndex scvf) timeIdx
             = problem_gravity elemCtx (exteriorIndex scvf) timeIdx"
  shows "hydrostaticGradient elemCtx timeIdx scvf (interiorIndex scvf) (exteriorIndex scvf) phaseIdx
           = hydrostaticCorrection_spec faceToCenter elemCtx timeIdx scvf phaseIdx"
  using assms
  by (simp add: hydrostaticGradient_def hydrostaticCorrection_spec_def faceToCenter_def Let_def
      mean_of_equal)

section \<open>The flux stage: Darcy's law per phase\<close>

text \<open>
  Claim C1. On every face, interior or boundary, and for every considered phase, the
  flux stage leaves as filter velocity minus the mobility of the phase times the
  permeability tensor applied to the potential gradient of the phase, and as volumetric
  flux the dot product of that filter velocity with the normal of the face. Mobility,
  tensor and gradient are the ones the record holds when the stage starts. The source
  multiplies each component of the product by the negated mobility from the right; in a
  commutative ring that is the same number.
\<close>

theorem darcy_filter_velocity_and_flux:
  fixes elemCtx :: "('a::comm_ring, 'fs, 'pc) ElementContext"
  assumes "phaseIdx < numPhases elemCtx"
    and "model_phaseIsConsidered elemCtx phaseIdx"
  shows "filterVelocity (calculateFluxes elemCtx faceIdx timeIdx eq) phaseIdx
           = map (\<lambda>y. - (mobility eq phaseIdx * y)) (mv (K eq) (potentialGrad eq phaseIdx))
       \<and> volumeFlux (calculateFluxes elemCtx faceIdx timeIdx eq) phaseIdx
           = dot (filterVelocity (calculateFluxes elemCtx faceIdx timeIdx eq) phaseIdx)
               (normal (stencil_interiorFace elemCtx timeIdx faceIdx))
       \<and> filterVelocity (calculateBoundaryFluxes elemCtx faceIdx timeIdx eq) phaseIdx
           = map (\<lambda>y. - (mobility eq phaseIdx * y)) (mv (K eq) (potentialGrad eq phaseIdx))
       \<and> volumeFlux (calculateBoundaryFluxes elemCtx faceIdx timeIdx eq) phaseIdx
           = dot (filterVelocity (calculateBoundaryFluxes elemCtx faceIdx timeIdx eq) phaseIdx)
               (normal (stencil_boundaryFace elemCtx timeIdx faceIdx))"
  using assms
  by (simp add: calculateFluxes_def calculateBoundaryFluxes_def Let_def fluxLoop_closed
      vscale_neg_comm)

theorem darcy_filter_velocity_and_flux_witness:
  "(0::nat) < numPhases exCtx \<and> model_phaseIsConsidered exCtx 0
   \<and> filterVelocity (calculateFluxes exCtx 0 0 exEq) 0 = [- 105]
   \<and> volumeFlux (calculateFluxes exCtx 0 0 exEq) 0 = - 105
   \<and> filterVelocity (calculateBoundaryFluxes exCtx 0 0 exEq) 0 = [- 105]
   \<and> volumeFlux (calculateBoundaryFluxes exCtx 0 0 exEq) 0 = - 105"
  using darcy_filter_velocity_and_flux [of 0 exCtx 0 0 exEq]
  by (simp add: exCtx_def exEq_def exFace_def mv_def dot_def)

text \<open>
  Claim C3. On every face, interior or boundary, and for every phase the model does not
  consider, the flux stage sets the filter velocity to the zero vector and the volumetric
  flux to zero, whatever the record held before.
\<close>

theorem unconsidered_phase_has_zero_flux:
  fixes elemCtx :: "('a::{zero,plus,times,uminus}, 'fs, 'pc) ElementContext"
  assumes "phaseIdx < numPhases elemCtx"
    and "\<not> model_phaseIsConsidered elemCtx phaseIdx"
  shows "filterVelocity (calculateFluxes elemCtx faceIdx timeIdx eq) phaseIdx
           = replicate (dimWorld elemCtx) 0
       \<and> volumeFlux (calculateFluxes elemCtx faceIdx timeIdx eq) phaseIdx = 0
       \<and> filterVelocity (calculateBoundaryFluxes elemCtx faceIdx timeIdx eq) phaseIdx
           = replicate (dimWorld elemCtx) 0
       \<and> volumeFlux (calculateBoundaryFluxes elemCtx faceIdx timeIdx eq) phaseIdx = 0"
  using assms
  by (simp add: calculateFluxes_def calculateBoundaryFluxes_def Let_def fluxLoop_closed)

theorem unconsidered_phase_has_zero_flux_witness:
  "(1::nat) < numPhases exCtx \<and> \<not> model_phaseIsConsidered exCtx 1
   \<and> filterVelocity (calculateFluxes exCtx 0 0 exEq) 1 = [0]
   \<and> volumeFlux (calculateFluxes exCtx 0 0 exEq) 1 = 0
   \<and> filterVelocity (calculateBoundaryFluxes exCtx 0 0 exEq) 1 = [0]
   \<and> volumeFlux (calculateBoundaryFluxes exCtx 0 0 exEq) 1 = 0"
  using unconsidered_phase_has_zero_flux [of 1 exCtx 0 0 exEq]
  by (simp add: exCtx_def)

section \<open>The flux stage has no precondition check\<close>

text \<open>
  Claim C6, as the code has it. The flux stage carries no check of the stage the record
  is in, and the record has no field that could tell: called on any record, also one on
  which the gradient stage never ran, it returns normally, leaves permeability tensor,
  mobilities and potential gradients as it found them, and computes the flux of every
  considered phase from them. That the gradients come first is an obligation of the
  caller, stated in the comment above the method. The claim has it fail instead.
\<close>

theorem flux_stage_reads_the_record_as_it_is:
  fixes elemCtx :: "('a::{zero,plus,times,uminus}, 'fs, 'pc) ElementContext"
  assumes "phaseIdx < numPhases elemCtx"
  shows "K (calculateFluxes elemCtx faceIdx timeIdx eq) = K eq
       \<and> mobility (calculateFluxes elemCtx faceIdx timeIdx eq) = mobility eq
       \<and> potentialGrad (calculateFluxes elemCtx faceIdx timeIdx eq) = potentialGrad eq
       \<and> volumeFlux (calculateFluxes elemCtx faceIdx timeIdx eq) phaseIdx
           = (if model_phaseIsConsidered elemCtx phaseIdx
              then dot (vscale (mv (K eq) (potentialGrad eq phaseIdx)) (- mobility eq phaseIdx))
                     (normal (stencil_interiorFace elemCtx timeIdx faceIdx))
              else 0)
       \<and> K (calculateBoundaryFluxes elemCtx faceIdx timeIdx eq) = K eq
       \<and> mobility (calculateBoundaryFluxes elemCtx faceIdx timeIdx eq) = mobility eq
       \<and> potentialGrad (calculateBoundaryFluxes elemCtx faceIdx timeIdx eq) = potentialGrad eq
       \<and> volumeFlux (calculateBoundaryFluxes elemCtx faceIdx timeIdx eq) phaseIdx
           = (if model_phaseIsConsidered elemCtx phaseIdx
              then dot (vscale (mv (K eq) (potentialGrad eq phaseIdx)) (- mobility eq phaseIdx))
                     (normal (stencil_boundaryFace elemCtx timeIdx faceIdx))
              else 0)"
  using assms
  by (simp add: calculateFluxes_def calculateBoundaryFluxes_def Let_def fluxLoop_closed)

theorem flux_stage_reads_the_record_as_it_is_witness:
  "(0::nat) < numPhases exCtx
   \<and> K (calculateFluxes exCtx 0 0 exEq) = [[7]]
   \<and> mobility (calculateFluxes exCtx 0 0 exEq) 0 = 3
   \<and> potentialGrad (calculateFluxes exCtx 0 0 exEq) 0 = [5]
   \<and> volumeFlux (calculateFluxes exCtx 0 0 exEq) 0 = - 105
   \<and> volumeFlux (calculateBoundaryFluxes exCtx 0 0 exEq) 0 = - 105"
  using flux_stage_reads_the_record_as_it_is [of 0 exCtx 0 0 exEq]
  by (simp add: exCtx_def exEq_def exFace_def mv_def vscale_def dot_def)

text \<open>
  On the record \<open>exEq\<close>, which no gradient stage has touched, the flux stage returns a
  flux of \<open>-105\<close> from the stale tensor, mobility and gradient; the evaluation in the
  prescribed order gives 16.
\<close>

theorem flux_without_gradients_counterexample:
  "filterVelocity (calculateFluxes exCtx 0 0 exEq) 0 = [- 105]
   \<and> volumeFlux (calculateFluxes exCtx 0 0 exEq) 0 = - 105
   \<and> gradientsThenFluxes exCtx 0 0 exEq = Inr (calculateFluxes exCtx 0 0 exInterior)
   \<and> volumeFlux (calculateFluxes exCtx 0 0 exInterior) 0 = 16"
  unfolding gradientsThenFluxes_def exCtx_interior
  by (simp add: exInterior_def calculateFluxes_def
      fluxLoop_closed Let_def exCtx_def exEq_def exFace_def mv_def vscale_def dot_def)

section \<open>Upstream and downstream\<close>

text \<open>
  Claim C2. For every considered phase, a gradient stage that returns has classified
  the two sides by the projection of the corrected potential gradient onto the normal
  of the face: a strictly positive projection makes the exterior side upstream and the
  interior side downstream, anything else, a zero projection included, makes the
  interior side upstream and the exterior side downstream. The interior and the boundary
  variant use the same rule; on a boundary the exterior side is the sentinel \<open>-1\<close>.
\<close>

theorem upstream_downstream_rule:
  fixes elemCtx :: "('a::{zero,plus,minus,uminus,times,inverse,ord}, 'fs, 'pc) ElementContext"
  assumes "phaseIdx < numPhases elemCtx"
    and "model_phaseIsConsidered elemCtx phaseIdx"
  shows "(calculateGradients elemCtx faceIdx timeIdx eq = Inr r \<longrightarrow>
            interiorDofIdx r = interiorIndex (stencil_interiorFace elemCtx timeIdx faceIdx)
          \<and> exteriorDofIdx r = exteriorIndex (stencil_interiorFace elemCtx timeIdx faceIdx)
          \<and> (upstreamDofIdx r phaseIdx, downstreamDofIdx r phaseIdx) =
              (if 0 < projection (potentialGrad r phaseIdx)
                        (normal (stencil_interiorFace elemCtx timeIdx faceIdx))
               then (exteriorDofIdx r, interiorDofIdx r)
               else (interiorDofIdx r, exteriorDofIdx r)))
       \<and> (calculateBoundaryGradients elemCtx faceIdx timeIdx fluidState paramCache eq = Inr rb \<longrightarrow>
            interiorDofIdx rb = interiorIndex (stencil_boundaryFace elemCtx timeIdx faceIdx)
          \<and> exteriorDofIdx rb = - 1
          \<and> (upstreamDofIdx rb phaseIdx, downstreamDofIdx rb phaseIdx) =
              (if 0 < projection (potentialGrad rb phaseIdx)
                        (normal (stencil_boundaryFace elemCtx timeIdx faceIdx))
               then (exteriorDofIdx rb, interiorDofIdx rb)
               else (interiorDofIdx rb, exteriorDofIdx rb)))"
proof (intro conjI impI)
  assume res: "calculateGradients elemCtx faceIdx timeIdx eq = Inr r"
  note f = calculateGradients_fields [OF res assms]
  show "interiorDofIdx r = interiorIndex (stencil_interiorFace elemCtx timeIdx faceIdx)"
    by (rule f(2))
  show "exteriorDofIdx r = exteriorIndex (stencil_interiorFace elemCtx timeIdx faceIdx)"
    by (rule f(3))
  show "(upstreamDofIdx r phaseIdx, downstreamDofIdx r phaseIdx) =
              (if 0 < projection (potentialGrad r phaseIdx)
                        (normal (stencil_interiorFace elemCtx timeIdx faceIdx))
               then (exteriorDofIdx r, interiorDofIdx r)
               else (interiorDofIdx r, exteriorDofIdx r))"
    by (simp add: f(5) f(6))
next
  assume res: "calculateBoundaryGradients elemCtx faceIdx timeIdx fluidState paramCache eq = Inr rb"
  note f = calculateBoundaryGradients_fields [OF res assms]
  show "interiorDofIdx rb = interiorIndex (stencil_boundaryFace elemCtx timeIdx faceIdx)"
    by (rule f(2))
  show "exteriorDofIdx rb = - 1"
    by (rule f(3))
  show "(upstreamDofIdx rb phaseIdx, downstreamDofIdx rb phaseIdx) =
              (if 0 < projection (potentialGrad rb phaseIdx)
                        (normal (stencil_boundaryFace elemCtx timeIdx faceIdx))
               then (exteriorDofIdx rb, interiorDofIdx rb)
               else (interiorDofIdx rb, exteriorDofIdx rb))"
    by (simp add: f(5) f(6))
qed

theorem upstream_downstream_rule_witness:
  "(0::nat) < numPhases exTieCtx \<and> model_phaseIsConsidered exTieCtx 0
   \<and> calculateGradients exTieCtx 0 0 exEq = Inr exTieInterior
   \<and> projection (potentialGrad exTieInterior 0) (normal (stencil_interiorFace exTieCtx 0 0)) = 0
   \<and> upstreamDofIdx exTieInterior 0 = interiorIndex (stencil_interiorFace exTieCtx 0 0)
   \<and> downstreamDofIdx exTieInterior 0 = exteriorIndex (stencil_interiorFace exTieCtx 0 0)
   \<and> (0::nat) < numPhases exInflowCtx \<and> model_phaseIsConsidered exInflowCtx 0
   \<and> calculateBoundaryGradients exInflowCtx 0 0 () () exEq = Inr exInflowBoundary
   \<and> projection (potentialGrad exInflowBoundary 0) (normal (stencil_boundaryFace exInflowCtx 0 0)) = 3
   \<and> upstreamDofIdx exInflowBoundary 0 = - 1
   \<and> downstreamDofIdx exInflowBoundary 0 = interiorIndex (stencil_boundaryFace exInflowCtx 0 0)"
  using upstream_downstream_rule [of 0 exTieCtx 0 0 exEq exTieInterior "()" "()" exEq]
    upstream_downstream_rule [of 0 exInflowCtx 0 0 exEq exEq "()" "()" exInflowBoundary]
  unfolding exTieCtx_interior exInflowCtx_boundary
  by (simp add: exTieInterior_def exInflowBoundary_def exEq_def exTieCtx_def exInflowCtx_def
      exCtx_def exFace_def projection_def)

text \<open>
  Claim C9. On an interior face, whose two control volumes carry different indices, and
  for every considered phase, exactly one of the upstream and the downstream index left
  by the gradient stage is the interior index, and the other is the exterior index.
\<close>

theorem exactly_one_of_upstream_downstream_is_interior:
  fixes elemCtx :: "('a::{zero,plus,minus,uminus,times,inverse,ord}, 'fs, 'pc) ElementContext"
  assumes "calculateGradients elemCtx faceIdx timeIdx eq = Inr r"
    and "phaseIdx < numPhases elemCtx"
    and "model_phaseIsConsidered elemCtx phaseIdx"
    and "interiorIndex (stencil_interiorFace elemCtx timeIdx faceIdx)
           \<noteq> exteriorIndex (stencil_interiorFace elemCtx timeIdx faceIdx)"
  shows "(upstreamDofIdx r phaseIdx = interiorIndex (stencil_interiorFace elemCtx timeIdx faceIdx))
           \<noteq> (downstreamDofIdx r phaseIdx = interiorIndex (stencil_interiorFace elemCtx timeIdx faceIdx))
       \<and> {upstreamDofIdx r phaseIdx, downstreamDofIdx r phaseIdx}
           = {interiorIndex (stencil_interiorFace elemCtx timeIdx faceIdx),
              exteriorIndex (stencil_interiorFace elemCtx timeIdx faceIdx)}"
proof -
  note f = calculateGradients_fields [OF assms(1-3)]
  show ?thesis
    using assms(4) by (auto simp add: f(5) f(6) f(2) f(3))
qed

theorem exactly_one_of_upstream_downstream_is_interior_witness:
  "calculateGradients exInflowCtx 0 0 exEq = Inr exInflowInterior
   \<and> (0::nat) < numPhases exInflowCtx \<and> model_phaseIsConsidered exInflowCtx 0
   \<and> interiorIndex (stencil_interiorFace exInflowCtx 0 0)
        \<noteq> exteriorIndex (stencil_interiorFace exInflowCtx 0 0)
   \<and> upstreamDofIdx exInflowInterior 0 = exteriorIndex (stencil_interiorFace exInflowCtx 0 0)
   \<and> downstreamDofIdx exInflowInterior 0 = interiorIndex (stencil_interiorFace exInflowCtx 0 0)"
  using exactly_one_of_upstream_downstream_is_interior [of exInflowCtx 0 0 exEq exInflowInterior 0]
  unfolding exInflowCtx_interior
  by (simp add: exInflowInterior_def exEq_def exInflowCtx_def exCtx_def exFace_def)

text \<open>
  Claim C7, as the code has it. On a boundary face whose interior index is not negative
  as a \<open>short\<close>, and for every considered phase: the upstream side is the exterior
  sentinel exactly when the potential gradient projects strictly positively onto the
  normal of the face, and the recorded mobility is then the relative permeability of the
  prescribed fluid state divided by the viscosity of that state; otherwise the upstream
  side is the interior volume and the mobility is the one of the interior volume. The
  claim takes the sentinel to be upstream when the flow leaves the domain.
\<close>

theorem boundary_mobility_follows_upstream_side:
  fixes elemCtx :: "('a::{zero,plus,minus,uminus,times,inverse,ord}, 'fs, 'pc) ElementContext"
  assumes "calculateBoundaryGradients elemCtx faceIdx timeIdx fluidState paramCache eq = Inr r"
    and "phaseIdx < numPhases elemCtx"
    and "model_phaseIsConsidered elemCtx phaseIdx"
    and "0 \<le> sint (interiorIndex (stencil_boundaryFace elemCtx timeIdx faceIdx))"
  shows "mobility r phaseIdx =
           (if upstreamDofIdx r phaseIdx = exteriorDofIdx r
            then MaterialLaw_relativePermeabilities elemCtx (interiorDofIdx r) timeIdx fluidState phaseIdx
                   / FluidSystem_viscosity elemCtx fluidState paramCache phaseIdx
            else intQuants_mobility elemCtx (interiorDofIdx r) timeIdx phaseIdx)
       \<and> exteriorDofIdx r = - 1
       \<and> interiorDofIdx r = interiorIndex (stencil_boundaryFace elemCtx timeIdx faceIdx)
       \<and> (upstreamDofIdx r phaseIdx = exteriorDofIdx r \<or> upstreamDofIdx r phaseIdx = interiorDofIdx r)
       \<and> (upstreamDofIdx r phaseIdx = exteriorDofIdx r)
           = (0 < projection (potentialGrad r phaseIdx)
                     (normal (stencil_boundaryFace elemCtx timeIdx faceIdx)))"
proof -
  note f = calculateBoundaryGradients_fields [OF assms(1-3)]
  have ne: "interiorDofIdx r \<noteq> - 1"
    using assms(4) by (auto simp add: f(2))
  have nn: "\<not> sint (interiorDofIdx r) < 0"
    using assms(4) by (simp add: f(2))
  have up: "upstreamDofIdx r phaseIdx = - 1 \<or> upstreamDofIdx r phaseIdx = interiorDofIdx r"
    by (simp add: f(5) f(3))
  have mob: "mobility r phaseIdx =
           (if upstreamDofIdx r phaseIdx = - 1
            then MaterialLaw_relativePermeabilities elemCtx (interiorDofIdx r) timeIdx fluidState phaseIdx
                   / FluidSystem_viscosity elemCtx fluidState paramCache phaseIdx
            else intQuants_mobility elemCtx (interiorDofIdx r) timeIdx phaseIdx)"
    using up ne nn by (subst f(7)) auto
  have side: "(upstreamDofIdx r phaseIdx = - 1)
           = (0 < projection (potentialGrad r phaseIdx)
                     (normal (stencil_boundaryFace elemCtx timeIdx faceIdx)))"
    using ne by (simp add: f(5) f(3))
  show ?thesis
    using mob up side by (simp add: f(3) f(2) [symmetric])
qed

theorem boundary_mobility_follows_upstream_side_witness:
  "calculateBoundaryGradients exInflowCtx 0 0 () () exEq = Inr exInflowBoundary
   \<and> (0::nat) < numPhases exInflowCtx \<and> model_phaseIsConsidered exInflowCtx 0
   \<and> 0 \<le> sint (interiorIndex (stencil_boundaryFace exInflowCtx 0 0))
   \<and> projection (potentialGrad exInflowBoundary 0) (normal (stencil_boundaryFace exInflowCtx 0 0)) = 3
   \<and> upstreamDofIdx exInflowBoundary 0 = exteriorDofIdx exInflowBoundary
   \<and> mobility exInflowBoundary 0 = 6 / 3
   \<and> calculateBoundaryGradients exCtx 0 0 () () exEq = Inr exBoundary
   \<and> projection (potentialGrad exBoundary 0) (normal (stencil_boundaryFace exCtx 0 0)) = - 2
   \<and> upstreamDofIdx exBoundary 0 = interiorDofIdx exBoundary
   \<and> mobility exBoundary 0 = intQuants_mobility exCtx 0 0 0"
  using boundary_mobility_follows_upstream_side [of exInflowCtx 0 0 "()" "()" exEq exInflowBoundary 0]
    boundary_mobility_follows_upstream_side [of exCtx 0 0 "()" "()" exEq exBoundary 0]
  unfolding exInflowCtx_boundary exCtx_boundary
  by (simp add: exInflowBoundary_def exBoundary_def exEq_def exInflowCtx_def exCtx_def exFace_def
      projection_def)

text \<open>
  Where the sentinel is upstream the flux is negative, against the outward normal: the
  phase enters the domain. Where the phase leaves the domain, with a flux of 24, the
  interior volume is upstream and the mobility is the interior one, 4, not the 2 of the
  prescribed state.
\<close>

theorem sentinel_upstream_is_inflow_counterexample:
  "calculateBoundaryGradients exInflowCtx 0 0 () () exEq = Inr exInflowBoundary
   \<and> upstreamDofIdx exInflowBoundary 0 = exteriorDofIdx exInflowBoundary
   \<and> volumeFlux (calculateBoundaryFluxes exInflowCtx 0 0 exInflowBoundary) 0 = - 12
   \<and> calculateBoundaryGradients exOutflowCtx 0 0 () () exEq = Inr exOutflowBoundary
   \<and> volumeFlux (calculateBoundaryFluxes exOutflowCtx 0 0 exOutflowBoundary) 0 = 24
   \<and> upstreamDofIdx exOutflowBoundary 0 = interiorDofIdx exOutflowBoundary
   \<and> mobility exOutflowBoundary 0 = 4
   \<and> MaterialLaw_relativePermeabilities exOutflowCtx 0 0 () 0
        / FluidSystem_viscosity exOutflowCtx () () 0 = 2
   \<and> mobility exOutflowBoundary 0
        \<noteq> MaterialLaw_relativePermeabilities exOutflowCtx 0 0 () 0
            / FluidSystem_viscosity exOutflowCtx () () 0"
  unfolding exInflowCtx_boundary exOutflowCtx_boundary
  by (simp add: exInflowBoundary_def exOutflowBoundary_def calculateBoundaryFluxes_def
      fluxLoop_closed Let_def exOutflowCtx_def exInflowCtx_def exCtx_def exEq_def exFace_def
      mv_def vscale_def dot_def)

section \<open>The hydrostatic correction\<close>

text \<open>
  Claim C4, as the code has it. On an interior face with gravity enabled whose two
  control volumes have distinct centres and the same gravitational acceleration \<open>g\<close>
  (their arithmetic mean is then \<open>g\<close> itself), the potential gradient of a considered
  phase is the raw gradient plus the centre-to-centre vector scaled by the difference of
  the two hydrostatic pressures over the squared centre-to-centre distance, where the
  hydrostatic pressure of a side is \<open>- \<rho> (g \<cdot> d)\<close> and \<open>d\<close> points from the integration
  point of the face to the centre of the volume. The claim has \<open>d\<close> point the other
  way, from the centre to the integration point.
\<close>

theorem hydrostatic_correction_uniform_gravity:
  fixes elemCtx :: "(real, 'fs, 'pc) ElementContext"
  assumes "calculateGradients elemCtx faceIdx timeIdx eq = Inr r"
    and "EnableGravity elemCtx"
    and "phaseIdx < numPhases elemCtx"
    and "model_phaseIsConsidered elemCtx phaseIdx"
    and "problem_gravity elemCtx (interiorIndex (stencil_interiorFace elemCtx timeIdx faceIdx)) timeIdx
           = problem_gravity elemCtx (exteriorIndex (stencil_interiorFace elemCtx timeIdx faceIdx)) timeIdx"
    and "two_norm2 (vsub (pos elemCtx (exteriorIndex (stencil_interiorFace elemCtx timeIdx faceIdx)) timeIdx)
                         (pos elemCtx (interiorIndex (stencil_interiorFace elemCtx timeIdx faceIdx)) timeIdx))
           \<noteq> 0"
  shows "potentialGrad r phaseIdx
           = vadd (gradCalc_calculateGradient elemCtx faceIdx phaseIdx)
               (hydrostaticCorrection_spec faceToCenter elemCtx timeIdx
                  (stencil_interiorFace elemCtx timeIdx faceIdx) phaseIdx)"
  using calculateGradients_fields(4) [OF assms(1,3,4)] assms(2)
    hydrostaticGradient_uniform_gravity [OF assms(5)]
  by simp

theorem hydrostatic_correction_uniform_gravity_witness:
  "calculateGradients exCtx 0 0 exEq = Inr exInterior
   \<and> EnableGravity exCtx \<and> (0::nat) < numPhases exCtx \<and> model_phaseIsConsidered exCtx 0
   \<and> problem_gravity exCtx (interiorIndex (stencil_interiorFace exCtx 0 0)) 0
        = problem_gravity exCtx (exteriorIndex (stencil_interiorFace exCtx 0 0)) 0
   \<and> two_norm2 (vsub (pos exCtx (exteriorIndex (stencil_interiorFace exCtx 0 0)) 0)
                      (pos exCtx (interiorIndex (stencil_interiorFace exCtx 0 0)) 0)) \<noteq> 0
   \<and> hydrostaticCorrection_spec faceToCenter exCtx 0 (stencil_interiorFace exCtx 0 0) 0 = [2]
   \<and> potentialGrad exInterior 0 = [- 2]"
  using hydrostatic_correction_uniform_gravity [of exCtx 0 0 exEq exInterior 0]
  unfolding exCtx_interior
  by (simp add: exInterior_def exEq_def hydrostaticCorrection_spec_def faceToCenter_def
      exCtx_def exFace_def vsub_def vscale_def vadd_def dot_def two_norm2_def Let_def)

text \<open>
  With \<open>d\<close> as the claim words it the correction changes sign: in the example the stage
  leaves the gradient \<open>[-2]\<close>, the claim's formula gives \<open>[-6]\<close>. Where the two
  volumes differ in gravity and density the source uses each side's own acceleration and
  forms no mean: it adds \<open>[7]\<close> where the mean gives \<open>[6]\<close> or \<open>[-6]\<close>.
\<close>

theorem hydrostatic_correction_literal_counterexample:
  "calculateGradients exCtx 0 0 exEq = Inr exInterior
   \<and> potentialGrad exInterior 0 = [- 2]
   \<and> vadd (gradCalc_calculateGradient exCtx 0 0)
        (hydrostaticCorrection_spec centerToFace exCtx 0 (stencil_interiorFace exCtx 0 0) 0) = [- 6]
   \<and> potentialGrad exInterior 0
        \<noteq> vadd (gradCalc_calculateGradient exCtx 0 0)
            (hydrostaticCorrection_spec centerToFace exCtx 0 (stencil_interiorFace exCtx 0 0) 0)
   \<and> hydrostaticGradient exSkewCtx 0 exFace (interiorIndex exFace) (exteriorIndex exFace) 0 = [7]
   \<and> hydrostaticCorrection_spec centerToFace exSkewCtx 0 exFace 0 = [- 6]
   \<and> hydrostaticCorrection_spec faceToCenter exSkewCtx 0 exFace 0 = [6]"
  unfolding exCtx_interior
  by (simp add: exInterior_def exEq_def hydrostaticCorrection_spec_def
      hydrostaticGradient_def centerToFace_def faceToCenter_def exSkewCtx_def
      exCtx_def exFace_def vsub_def vscale_def vadd_def dot_def two_norm2_def Let_def)

section \<open>Non-finite gradients\<close>

text \<open>
  Claim C5. With gravity enabled, if the corrected potential gradient of a considered
  phase fails the source's finiteness test (the library's \<open>isfinite\<close> on its two-norm),
  the gradient stage throws a \<open>NumericalProblem\<close> that names an offending phase, the
  first one in phase order, and the evaluation of the face ends with that exception: no
  flux is computed. This holds for the interior and for the boundary variant.
\<close>

theorem non_finite_gradient_is_numerical_error:
  fixes elemCtx :: "('a::{zero,plus,minus,uminus,times,inverse,ord}, 'fs, 'pc) ElementContext"
  assumes "EnableGravity elemCtx"
    and "phaseIdx < numPhases elemCtx"
    and "model_phaseIsConsidered elemCtx phaseIdx"
  shows "(\<not> std_isfinite elemCtx (two_norm (std_sqrt elemCtx)
              (vadd (gradCalc_calculateGradient elemCtx faceIdx phaseIdx)
                 (hydrostaticGradient elemCtx timeIdx (stencil_interiorFace elemCtx timeIdx faceIdx)
                    (interiorIndex (stencil_interiorFace elemCtx timeIdx faceIdx))
                    (exteriorIndex (stencil_interiorFace elemCtx timeIdx faceIdx)) phaseIdx)))
          \<longrightarrow> (\<exists>q\<le>phaseIdx. model_phaseIsConsidered elemCtx q
                \<and> \<not> std_isfinite elemCtx (two_norm (std_sqrt elemCtx)
                      (vadd (gradCalc_calculateGradient elemCtx faceIdx q)
                         (hydrostaticGradient elemCtx timeIdx (stencil_interiorFace elemCtx timeIdx faceIdx)
                            (interiorIndex (stencil_interiorFace elemCtx timeIdx faceIdx))
                            (exteriorIndex (stencil_interiorFace elemCtx timeIdx faceIdx)) q)))
                \<and> calculateGradients elemCtx faceIdx timeIdx eq = Inl (NumericalProblem q)
                \<and> gradientsThenFluxes elemCtx faceIdx timeIdx eq = Inl (NumericalProblem q)))
       \<and> (\<not> std_isfinite elemCtx (two_norm (std_sqrt elemCtx)
              (vadd (gradCalc_calculateBoundaryGradient elemCtx fluidState faceIdx phaseIdx)
                 (boundaryHydrostaticGradient elemCtx timeIdx (stencil_boundaryFace elemCtx timeIdx faceIdx)
                    (interiorIndex (stencil_boundaryFace elemCtx timeIdx faceIdx)) phaseIdx)))
          \<longrightarrow> (\<exists>q\<le>phaseIdx. model_phaseIsConsidered elemCtx q
                \<and> \<not> std_isfinite elemCtx (two_norm (std_sqrt elemCtx)
                      (vadd (gradCalc_calculateBoundaryGradient elemCtx fluidState faceIdx q)
                         (boundaryHydrostaticGradient elemCtx timeIdx (stencil_boundaryFace elemCtx timeIdx faceIdx)
                            (interiorIndex (stencil_boundaryFace elemCtx timeIdx faceIdx)) q)))
                \<and> calculateBoundaryGradients elemCtx faceIdx timeIdx fluidState paramCache eq
                     = Inl (NumericalProblem q)
                \<and> boundaryGradientsThenFluxes elemCtx faceIdx timeIdx fluidState paramCache eq
                     = Inl (NumericalProblem q)))"
proof (intro conjI impI)
  assume bad: "\<not> std_isfinite elemCtx (two_norm (std_sqrt elemCtx)
              (vadd (gradCalc_calculateGradient elemCtx faceIdx phaseIdx)
                 (hydrostaticGradient elemCtx timeIdx (stencil_interiorFace elemCtx timeIdx faceIdx)
                    (interiorIndex (stencil_interiorFace elemCtx timeIdx faceIdx))
                    (exteriorIndex (stencil_interiorFace elemCtx timeIdx faceIdx)) phaseIdx)))"
  from calculateGradients_failure [OF assms bad, of eq]
  show "\<exists>q\<le>phaseIdx. model_phaseIsConsidered elemCtx q
                \<and> \<not> std_isfinite elemCtx (two_norm (std_sqrt elemCtx)
                      (vadd (gradCalc_calculateGradient elemCtx faceIdx q)
                         (hydrostaticGradient elemCtx timeIdx (stencil_interiorFace elemCtx timeIdx faceIdx)
                            (interiorIndex (stencil_interiorFace elemCtx timeIdx faceIdx))
                            (exteriorIndex (stencil_interiorFace elemCtx timeIdx faceIdx)) q)))
                \<and> calculateGradients elemCtx faceIdx timeIdx eq = Inl (NumericalProblem q)
                \<and> gradientsThenFluxes elemCtx faceIdx timeIdx eq = Inl (NumericalProblem q)"
    by (auto simp add: gradientsThenFluxes_def)
next
  assume bad: "\<not> std_isfinite elemCtx (two_norm (std_sqrt elemCtx)
              (vadd (gradCalc_calculateBoundaryGradient elemCtx fluidState faceIdx phaseIdx)
                 (boundaryHydrostaticGradient elemCtx timeIdx (stencil_boundaryFace elemCtx timeIdx faceIdx)
                    (interiorIndex (stencil_boundaryFace elemCtx timeIdx faceIdx)) phaseIdx)))"
  from calculateBoundaryGradients_failure [OF assms bad, of paramCache eq]
  show "\<exists>q\<le>phaseIdx. model_phaseIsConsidered elemCtx q
                \<and> \<not> std_isfinite elemCtx (two_norm (std_sqrt elemCtx)
                      (vadd (gradCalc_calculateBoundaryGradient elemCtx fluidState faceIdx q)
                         (boundaryHydrostaticGradient elemCtx timeIdx (stencil_boundaryFace elemCtx timeIdx faceIdx)
                            (interiorIndex (stencil_boundaryFace elemCtx timeIdx faceIdx)) q)))
                \<and> calculateBoundaryGradients elemCtx faceIdx timeIdx fluidState paramCache eq
                     = Inl (NumericalProblem q)
                \<and> boundaryGradientsThenFluxes elemCtx faceIdx timeIdx fluidState paramCache eq
                     = Inl (NumericalProblem q)"
    by (auto simp add: boundaryGradientsThenFluxes_def)
qed

theorem non_finite_gradient_is_numerical_error_witness:
  "EnableGravity exNarrowCtx \<and> (0::nat) < numPhases exNarrowCtx
   \<and> model_phaseIsConsidered exNarrowCtx 0
   \<and> \<not> std_isfinite exNarrowCtx (two_norm (std_sqrt exNarrowCtx)
          (vadd (gradCalc_calculateGradient exNarrowCtx 0 0)
             (hydrostaticGradient exNarrowCtx 0 exFace 0 1 0)))
   \<and> calculateGradients exNarrowCtx 0 0 exEq = Inl (NumericalProblem 0)
   \<and> gradientsThenFluxes exNarrowCtx 0 0 exEq = Inl (NumericalProblem 0)
   \<and> \<not> std_isfinite exNarrowCtx (two_norm (std_sqrt exNarrowCtx)
          (vadd (gradCalc_calculateBoundaryGradient exNarrowCtx () 0 0)
             (boundaryHydrostaticGradient exNarrowCtx 0 exFace 0 0)))
   \<and> calculateBoundaryGradients exNarrowCtx 0 0 () () exEq = Inl (NumericalProblem 0)
   \<and> boundaryGradientsThenFluxes exNarrowCtx 0 0 () () exEq = Inl (NumericalProblem 0)"
  using non_finite_gradient_is_numerical_error [of exNarrowCtx 0 0 0 exEq "()" "()"]
  by (simp add: exNarrowCtx_def exCtx_def exFace_def hydrostaticGradient_def
      boundaryHydrostaticGradient_def vsub_def vscale_def vadd_def dot_def two_norm2_def
      two_norm_def Let_def)

section \<open>Boundary faces without a pressure difference\<close>

text \<open>
  Claim C8, as the code has it. On a boundary face with gravity disabled, a phase whose
  raw boundary gradient is the zero vector (no difference between the prescribed state
  and the interior one) has a volumetric flux of zero, and the evaluation returns.
  Scalars are exact here: the theorem is about an ordered field. The claim leaves out
  that gravity must be disabled.
\<close>

theorem boundary_zero_gradient_zero_flux:
  fixes elemCtx :: "('a::linordered_field, 'fs, 'pc) ElementContext"
  assumes "\<not> EnableGravity elemCtx"
    and "phaseIdx < numPhases elemCtx"
    and "gradCalc_calculateBoundaryGradient elemCtx fluidState faceIdx phaseIdx
           = replicate (dimWorld elemCtx) 0"
  shows "\<exists>r. boundaryGradientsThenFluxes elemCtx faceIdx timeIdx fluidState paramCache eq = Inr r
             \<and> volumeFlux r phaseIdx = 0"
proof -
  have "\<exists>r. calculateBoundaryGradients elemCtx faceIdx timeIdx fluidState paramCache eq = Inr r"
    apply (rule exI)
    apply (rule calculateBoundaryGradients_success)
    using assms(1) apply simp
    done
  then obtain r where
    res: "calculateBoundaryGradients elemCtx faceIdx timeIdx fluidState paramCache eq = Inr r"
    by blast
  have "volumeFlux (calculateBoundaryFluxes elemCtx faceIdx timeIdx r) phaseIdx = 0"
  proof (cases "model_phaseIsConsidered elemCtx phaseIdx")
    case True
    have "potentialGrad r phaseIdx = replicate (dimWorld elemCtx) 0"
      using calculateBoundaryGradients_fields(4) [OF res assms(2) True] assms(1,3) by simp
    then show ?thesis
      using assms(2) True
      by (simp add: calculateBoundaryFluxes_def Let_def fluxLoop_closed flux_of_zero_gradient)
  next
    case False
    then show ?thesis
      using assms(2) by (simp add: calculateBoundaryFluxes_def Let_def fluxLoop_closed)
  qed
  then show ?thesis
    by (simp add: boundaryGradientsThenFluxes_def res)
qed

theorem boundary_zero_gradient_zero_flux_witness:
  "\<not> EnableGravity exNoGravityCtx \<and> (0::nat) < numPhases exNoGravityCtx
   \<and> gradCalc_calculateBoundaryGradient exNoGravityCtx () 0 0
        = replicate (dimWorld exNoGravityCtx) 0
   \<and> (\<exists>r. boundaryGradientsThenFluxes exNoGravityCtx 0 0 () () exEq = Inr r
            \<and> volumeFlux r 0 = 0)"
  using boundary_zero_gradient_zero_flux [of exNoGravityCtx 0 "()" 0 0 "()" exEq]
  by (simp add: exNoGravityCtx_def exCtx_def)

text \<open>
  With gravity enabled the hydrostatic term of the interior side is added to the zero
  raw gradient, and the flux is not zero: 16 in the example, where the mobility of the
  prescribed state equals the interior one.
\<close>

theorem boundary_flux_counterexample_with_gravity:
  "gradCalc_calculateBoundaryGradient exCtx () 0 0 = [0]
   \<and> MaterialLaw_relativePermeabilities exCtx 0 0 () 0 / FluidSystem_viscosity exCtx () () 0
        = intQuants_mobility exCtx 0 0 0
   \<and> boundaryGradientsThenFluxes exCtx 0 0 () () exEq
        = Inr (calculateBoundaryFluxes exCtx 0 0 exBoundary)
   \<and> volumeFlux (calculateBoundaryFluxes exCtx 0 0 exBoundary) 0 = 16"
  unfolding boundaryGradientsThenFluxes_def exCtx_boundary
  by (simp add: exBoundary_def calculateBoundaryFluxes_def fluxLoop_closed Let_def
      exCtx_def exEq_def exFace_def mv_def vscale_def dot_def)

section \<open>The file read in \<open>makeEvaluation\<close>\<close>

text \<open>
  Claim C10. The evaluation of a face is to be a function of its inputs, independent
  of the filesystem. The two stages are (\<open>gradientsThenFluxes_idempotent\<close>), but
  \<open>makeEvaluation\<close>, which turns a primary variable into the evaluation that the
  quantities of the element context are computed from, is not: for the same primary
  variables, variable index and time index 0 it
  returns the variable, with derivative 1, when the file is absent or holds anything
  else, and the constant, with derivative 0, when the first line of the file is
  \<open>true\<close>. Its own comment promises the variable at time index 0.
\<close>

theorem makeEvaluation_depends_on_the_file:
  "makeEvaluation exToolbox None [5] 0 0 = (5, [1])
   \<and> makeEvaluation exToolbox (Some ''false'') [5] 0 0 = (5, [1])
   \<and> makeEvaluation exToolbox (Some ''true'') [5] 0 0 = (5, [0])
   \<and> makeEvaluation exToolbox (Some ''true'') [5] 0 0 \<noteq> makeEvaluation exToolbox None [5] 0 0"
  by (simp add: makeEvaluation_def getline_def exToolbox_def Let_def)

end
